theory Spec2Isabelle
  imports Complex_Main
begin

section \<open>Python strings\<close>

text \<open>
  A Python \<open>str\<close> is a \<^typ>\<open>string\<close>. The embedding covers ASCII text: \<open>str.lower\<close> maps
  \<open>A\<close>..\<open>Z\<close> to \<open>a\<close>..\<open>z\<close> and leaves every other character alone, and the
  whitespace of \<open>str.strip\<close> is the ASCII whitespace of Python (codes 9 to 13, 28 to 31
  and 32).
\<close>

definition lower_char :: "char \<Rightarrow> char" where
  "lower_char c =
     (case map_of (zip ''ABCDEFGHIJKLMNOPQRSTUVWXYZ'' ''abcdefghijklmnopqrstuvwxyz'') c of
        Some l \<Rightarrow> l
      | None \<Rightarrow> c)"

definition lower :: "string \<Rightarrow> string" where
  "lower s = map lower_char s"

definition is_space :: "char \<Rightarrow> bool" where
  "is_space c \<longleftrightarrow>
     c \<in> set [CHR 0x09, CHR 0x0A, CHR 0x0B, CHR 0x0C, CHR 0x0D,
                CHR 0x1C, CHR 0x1D, CHR 0x1E, CHR 0x1F, CHR 0x20]"

definition strip :: "string \<Rightarrow> string" where
  "strip s = rev (dropWhile is_space (rev (dropWhile is_space s)))"

text \<open>\<open>s.startswith(kw)\<close> and the substring test \<open>kw in s\<close>.\<close>

fun starts_with :: "string \<Rightarrow> string \<Rightarrow> bool" where
  "starts_with [] s = True"
| "starts_with (k # ks) [] = False"
| "starts_with (k # ks) (c # cs) = (k = c \<and> starts_with ks cs)"

fun contains :: "string \<Rightarrow> string \<Rightarrow> bool" where
  "contains kw [] = (kw = [])"
| "contains kw (c # cs) = (starts_with kw (c # cs) \<or> contains kw cs)"

section \<open>The label-to-roles table and its lookup\<close>

definition ROLE_MAP :: "(string \<times> string list) list" where
  "ROLE_MAP =
    [(''technology'', [''Software Engineer - Fresher'', ''Full Stack Developer - Fresher'']),
     (''programming'', [''Backend Developer - Fresher'']),
     (''creativity'', [''UI/UX Designer - Fresher'']),
     (''analysis'', [''Data Analyst - Fresher'']),
     (''learning'', [''Machine Learning Intern'']),
     (''organization'', [''Business Analyst - Fresher'']),
     (''responsibility'', [''Cybersecurity Analyst - Fresher''])]"

text \<open>\<open>d.get(key, default)\<close> on a dictionary given by its items.\<close>

definition dict_get :: "(string \<times> 'v) list \<Rightarrow> string \<Rightarrow> 'v \<Rightarrow> 'v" where
  "dict_get d k dflt = (case map_of d k of None \<Rightarrow> dflt | Some v \<Rightarrow> v)"

definition map_label_to_roles :: "string \<Rightarrow> string list" where
  "map_label_to_roles label = (let key = strip (lower label) in dict_get ROLE_MAP key [])"

section \<open>JSON values\<close>

text \<open>
  The values \<open>res.json()\<close> and the analysis helpers hand over: \<open>None\<close>, booleans, numbers,
  strings, lists and dictionaries (a dictionary by its items, looked up with
  \<^const>\<open>dict_get\<close>). A number written without fraction and exponent is a Python \<open>int\<close>,
  of any size; every other number is a \<open>float\<close>, here the real number it stands for: the
  embedding has no NaN and no infinity.
\<close>

datatype json =
    JNull
  | JBool bool
  | JInt int
  | JFloat real
  | JStr string
  | JList "json list"
  | JObj "(string \<times> json) list"

section \<open>The remote inference service\<close>

record request =
  url :: string
  headers :: "(string \<times> string) list"
  json_payload :: "(string \<times> string) list"

text \<open>
  An \<open>httpx\<close> response: \<open>res.status_code\<close>, \<open>res.text\<close> and the outcome of
  \<open>res.json()\<close>, which is \<open>Inl msg\<close> when decoding raises.
\<close>

record response =
  status_code :: int
  body_text :: string
  body_json :: "string + json"

text \<open>\<open>client.post\<close> either returns a response or raises (timeout, transport error).\<close>

datatype post_result = Responds response | Post_raises string

text \<open>
  The service is a parameter of the model: \<open>remote n req\<close> is what the \<open>n\<close>-th
  \<open>client.post\<close> of a call (counted from 0) gets when it sends \<open>req\<close>.
\<close>

type_synonym remote = "nat \<Rightarrow> request \<Rightarrow> post_result"

text \<open>
  What one run of the loop does, in order: the requests it posts and the
  \<open>asyncio.sleep\<close> it ends with. A call logs one such list for each iteration.
\<close>

datatype event = Post request | Sleep real

text \<open>
  The detail of an \<open>HTTPException\<close>. \<open>Unexpected_response data\<close> is the f-string
  \<open>Unexpected HuggingFace response: {data}\<close>, kept unrendered.
\<close>

datatype detail = Detail string | Unexpected_response json

text \<open>What an iteration stores in \<open>last_error\<close>: an \<open>HTTPException\<close>, or any other
  exception caught by \<open>except Exception\<close>, with its \<open>str()\<close>.\<close>

datatype attempt_error = Http int detail | Other string

text \<open>
  What can reach the caller of \<open>predict_role\<close>. \<open>Outside_model\<close> marks the inputs
  on which the source depends on Python's ordering of strings or lists, on \<open>float()\<close> of a
  string or of an integer that it has to round, or on \<open>str()\<close> of a number, list or
  dictionary, none of which is embedded.
\<close>

datatype exn =
    HTTPException int detail
  | AttributeError
  | TypeError
  | ValueError
  | OverflowError
  | Outside_model

definition HUGGINGFACE_MODEL :: string where
  "HUGGINGFACE_MODEL = ''bhadresh-savani/distilbert-base-uncased-emotion''"

definition HUGGINGFACE_API_URL :: string where
  "HUGGINGFACE_API_URL = ''https://router.huggingface.co/hf-inference/models/'' @ HUGGINGFACE_MODEL"

text \<open>\<open>HUGGINGFACE_API_KEY\<close> is \<open>os.getenv(...)\<close>: \<open>None\<close> when unset; \<open>if key:\<close> also
  rejects the empty string.\<close>

definition truthy_str :: "string option \<Rightarrow> bool" where
  "truthy_str k = (case k of None \<Rightarrow> False | Some s \<Rightarrow> s \<noteq> [])"

definition base_headers :: "(string \<times> string) list" where
  "base_headers = [(''Content-Type'', ''application/json'')]"

definition auth_headers :: "string option \<Rightarrow> (string \<times> string) list" where
  "auth_headers key =
     (case key of
        None \<Rightarrow> base_headers
      | Some k \<Rightarrow> if k \<noteq> [] then base_headers @ [(''Authorization'', ''Bearer '' @ k)]
                  else base_headers)"

definition hf_request :: "(string \<times> string) list \<Rightarrow> string \<Rightarrow> request" where
  "hf_request hs text =
     \<lparr>url = HUGGINGFACE_API_URL, headers = hs, json_payload = [(''inputs'', text)]\<rparr>"

definition permission_signature :: string where
  "permission_signature = ''does not have sufficient permissions''"

text \<open>The two \<open>isinstance\<close> tests on the decoded body.\<close>

fun unwrap_predictions :: "json \<Rightarrow> json list option" where
  "unwrap_predictions (JList (JList inner # rest)) = Some inner"
| "unwrap_predictions (JList xs) = Some xs"
| "unwrap_predictions data = None"

text \<open>The \<open>if res.status_code == 503 / elif / else\<close> of one iteration.\<close>

definition handle_response :: "response \<Rightarrow> attempt_error + json list" where
  "handle_response res =
     (if status_code res = 503 then
        Inl (Http 503 (Detail ''Model is loading, please retry shortly.''))
      else if status_code res \<ge> 400 then
        Inl (Http (status_code res) (Detail (''HuggingFace error: '' @ body_text res)))
      else
        (case body_json res of
           Inl msg \<Rightarrow> Inl (Other msg)
         | Inr data \<Rightarrow>
             (case unwrap_predictions data of
                Some ps \<Rightarrow> Inr ps
              | None \<Rightarrow> Inl (Http 500 (Unexpected_response data)))))"

text \<open>
  The \<open>try\<close> block of one iteration, when \<open>n\<close> requests have been posted before it:
  its outcome and the requests it posts.
\<close>

definition hf_attempt ::
  "string option \<Rightarrow> remote \<Rightarrow> string \<Rightarrow> nat \<Rightarrow> (attempt_error + json list) \<times> event list" where
  "hf_attempt key remote text n =
     (let headers_to_use = (if truthy_str key then auth_headers key else base_headers);
          first = hf_request headers_to_use text
      in case remote n first of
           Post_raises msg \<Rightarrow> (Inl (Other msg), [Post first])
         | Responds res \<Rightarrow>
             if status_code res = 403 \<and> contains permission_signature (body_text res) then
               (let second = hf_request base_headers text
                in case remote (n + 1) second of
                     Post_raises msg \<Rightarrow> (Inl (Other msg), [Post first, Post second])
                   | Responds res2 \<Rightarrow> (handle_response res2, [Post first, Post second]))
             else (handle_response res, [Post first]))"

text \<open>The two \<open>raise\<close> statements after the loop.\<close>

fun raise_last_error :: "attempt_error option \<Rightarrow> exn" where
  "raise_last_error (Some (Http code d)) = HTTPException code d"
| "raise_last_error (Some (Other msg)) = HTTPException 500 (Detail msg)"
| "raise_last_error None = HTTPException 500 (Detail ''Unknown HF error'')"

text \<open>
  \<open>for attempt in range(max_retries + 1)\<close>, with \<open>k\<close> iterations left, \<open>n\<close> requests
  posted so far and the current \<open>last_error\<close>.
\<close>

fun hf_loop ::
  "string option \<Rightarrow> remote \<Rightarrow> string \<Rightarrow> int \<Rightarrow> nat \<Rightarrow> int \<Rightarrow> nat \<Rightarrow> attempt_error option
     \<Rightarrow> (exn + json list) \<times> event list list" where
  "hf_loop key remote text max_retries 0 attempt n last_error =
     (Inl (raise_last_error last_error), [])"
| "hf_loop key remote text max_retries (Suc k) attempt n last_error =
     (case hf_attempt key remote text n of
        (Inr data, evs) \<Rightarrow> (Inr data, [evs])
      | (Inl e, evs) \<Rightarrow>
          (let pause = (if attempt < max_retries then [Sleep 0.5] else []);
               (r, log) = hf_loop key remote text max_retries k (attempt + 1)
                            (n + length evs) (Some e)
           in (r, (evs @ pause) # log)))"

definition call_hf_api ::
  "string option \<Rightarrow> remote \<Rightarrow> string \<Rightarrow> int \<Rightarrow> (exn + json list) \<times> event list list" where
  "call_hf_api key remote text max_retries =
     hf_loop key remote text max_retries (nat (max_retries + 1)) 0 0 None"

section \<open>The role predictor\<close>

record PredictRoleResponse =
  predicted_label :: string
  recommended_roles :: "string list"
  confidence :: real

text \<open>\<open>p.get("score", 0.0)\<close>: only a dictionary has \<open>get\<close>.\<close>

definition score_key :: "json \<Rightarrow> exn + json" where
  "score_key p = (case p of JObj d \<Rightarrow> Inr (dict_get d ''score'' (JFloat 0.0)) | _ \<Rightarrow> Inl AttributeError)"

text \<open>Python's numbers among the JSON values: \<open>bool\<close> is a subclass of \<open>int\<close>.\<close>

fun as_number :: "json \<Rightarrow> real option" where
  "as_number (JInt n) = Some (of_int n)"
| "as_number (JFloat r) = Some r"
| "as_number (JBool b) = Some (if b then 1 else 0)"
| "as_number v = None"

text \<open>\<open>a > b\<close> on two keys. Numbers compare as numbers; two strings or two lists have an
  order that is not embedded; every other pair raises \<open>TypeError\<close>.\<close>

definition py_gt :: "json \<Rightarrow> json \<Rightarrow> exn + bool" where
  "py_gt a b =
     (case (as_number a, as_number b) of
        (Some x, Some y) \<Rightarrow> Inr (x > y)
      | _ \<Rightarrow>
          (case (a, b) of
             (JStr s, JStr t) \<Rightarrow> Inl Outside_model
           | (JList xs, JList ys) \<Rightarrow> Inl Outside_model
           | _ \<Rightarrow> Inl TypeError))"

text \<open>
  The loop of \<open>max(predictions, key=...)\<close> after its first item: \<open>m\<close> is the best item
  so far and \<open>mk\<close> its key; a later item replaces it only when its key is strictly greater.
\<close>

fun max_loop :: "json \<Rightarrow> json \<Rightarrow> json list \<Rightarrow> exn + json" where
  "max_loop m mk [] = Inr m"
| "max_loop m mk (p # ps) =
     (case score_key p of
        Inl e \<Rightarrow> Inl e
      | Inr k \<Rightarrow>
          (case py_gt k mk of
             Inl e \<Rightarrow> Inl e
           | Inr True \<Rightarrow> max_loop p k ps
           | Inr False \<Rightarrow> max_loop m mk ps))"

definition py_max :: "json list \<Rightarrow> exn + json" where
  "py_max predictions =
     (case predictions of
        [] \<Rightarrow> Inl ValueError
      | p # ps \<Rightarrow> (case score_key p of Inl e \<Rightarrow> Inl e | Inr k \<Rightarrow> max_loop p k ps))"

text \<open>
  \<open>float(v)\<close>. A \<open>float\<close> is returned as it is. An \<open>int\<close> up to \<open>2 ^ 53\<close> in absolute
  value is a \<open>float\<close> exactly; one of \<open>2 ^ 1024\<close> or more raises \<open>OverflowError\<close>; between
  the two Python rounds, or raises when the rounding reaches \<open>2 ^ 1024\<close>, and the model
  does not say which \<open>float\<close> comes out.
\<close>

fun py_float :: "json \<Rightarrow> exn + real" where
  "py_float (JFloat r) = Inr r"
| "py_float (JInt n) =
     (if \<bar>n\<bar> \<le> 2 ^ 53 then Inr (of_int n)
      else if \<bar>n\<bar> \<ge> 2 ^ 1024 then Inl OverflowError
      else Inl Outside_model)"
| "py_float (JBool b) = Inr (if b then 1 else 0)"
| "py_float (JStr s) = Inl Outside_model"
| "py_float v = Inl TypeError"

fun py_str :: "json \<Rightarrow> exn + string" where
  "py_str (JStr s) = Inr s"
| "py_str JNull = Inr ''None''"
| "py_str (JBool b) = Inr (if b then ''True'' else ''False'')"
| "py_str v = Inl Outside_model"

text \<open>\<open>any(kw in lowered for kw in [...])\<close>.\<close>

definition any_in :: "string list \<Rightarrow> string \<Rightarrow> bool" where
  "any_in kws lowered = list_ex (\<lambda>kw. contains kw lowered) kws"

text \<open>The \<open>else\<close> branch of \<open>predict_role\<close>: the label inferred from keywords.\<close>

definition heuristic_label :: "string \<Rightarrow> string" where
  "heuristic_label text =
     (let lowered = lower text in
      if any_in [''react'', ''angular'', ''vue'', ''frontend''] lowered then ''technology''
      else if any_in [''python'', ''java'', ''node'', ''backend'', ''api''] lowered then ''programming''
      else if any_in [''ui'', ''ux'', ''figma'', ''design''] lowered then ''creativity''
      else if any_in [''data'', ''analysis'', ''excel'', ''power bi'', ''sql''] lowered then ''analysis''
      else if any_in [''ml'', ''machine learning'', ''deep learning'', ''tensorflow'', ''pytorch'']
                lowered then ''learning''
      else if any_in [''business'', ''requirements'', ''stakeholder''] lowered then ''organization''
      else if any_in [''security'', ''cyber'', ''vulnerability'', ''network''] lowered
        then ''responsibility''
      else ''technology'')"

text \<open>
  \<open>label\<close> and \<open>score\<close> from the predictions. The source takes \<open>str(...)\<close> of the label,
  which never raises, before \<open>float(...)\<close> of the score; the model asks \<open>py_float\<close>
  first, so that a \<open>TypeError\<close> of the source is one of the model.
\<close>

definition label_and_score :: "json list \<Rightarrow> string \<Rightarrow> exn + (string \<times> real)" where
  "label_and_score predictions text =
     (if predictions \<noteq> [] then
        (case py_max predictions of
           Inl e \<Rightarrow> Inl e
         | Inr top_pred \<Rightarrow>
             (case top_pred of
                JObj d \<Rightarrow>
                  (case py_float (dict_get d ''score'' (JFloat 0.0)) of
                     Inl e \<Rightarrow> Inl e
                   | Inr score \<Rightarrow>
                       (case py_str (dict_get d ''label'' (JStr ''unknown'')) of
                          Inl e \<Rightarrow> Inl e
                        | Inr label \<Rightarrow> Inr (label, score)))
              | _ \<Rightarrow> Inl AttributeError))
      else Inr (heuristic_label text, 0.5))"

definition fresher_roles :: "string list \<Rightarrow> string list" where
  "fresher_roles roles = filter (\<lambda>r. contains ''Fresher'' r \<or> contains ''Intern'' r) roles"

text \<open>
  \<open>predict_role\<close>, given the configured key and the service: what it returns or raises,
  and the log of the remote call. \<open>except HTTPException\<close> catches that exception only.
\<close>

definition build_response :: "json list \<Rightarrow> string \<Rightarrow> exn + PredictRoleResponse" where
  "build_response predictions text =
     (case label_and_score predictions text of
        Inl e \<Rightarrow> Inl e
      | Inr (label, score) \<Rightarrow>
          Inr \<lparr>predicted_label = label,
               recommended_roles = fresher_roles (map_label_to_roles label),
               confidence = score\<rparr>)"

definition predict_role ::
  "string option \<Rightarrow> remote \<Rightarrow> string \<Rightarrow> (exn + PredictRoleResponse) \<times> event list list" where
  "predict_role key remote inputs =
     (let text = strip inputs in
      if text = [] then
        (Inl (HTTPException 400 (Detail ''inputs field must not be empty'')), [])
      else
        (let text = (if length text > 2000 then take 2000 text else text);
             (r, log) = call_hf_api key remote text 2
         in (case r of
               Inr predictions \<Rightarrow> build_response predictions text
             | Inl (HTTPException code d) \<Rightarrow> build_response [] text
             | Inl e \<Rightarrow> Inl e,
             log)))"

section \<open>The aggregator\<close>

text \<open>
  The helpers \<open>analyze_all\<close> imports are parameters of the model. Each one returns a
  value or raises an \<open>Exception\<close>, which is \<open>Inl\<close> of its \<open>str()\<close>. The two GitHub
  helpers return dictionaries (the source applies \<open>in\<close>, \<open>get\<close> and \<open>**\<close> to them);
  \<open>extract_username_from_input\<close> returns a string or \<open>None\<close>. The uploaded file is
  its content.
\<close>

type_synonym upload = string

type_synonym dict = "(string \<times> json) list"

record helpers =
  process_resume_file :: "upload \<Rightarrow> string + json"
  extract_username_from_input :: "string \<Rightarrow> string + string option"
  get_github_repo_counts :: "string \<Rightarrow> string \<Rightarrow> string + dict"
  get_pr_metrics :: "string \<Rightarrow> string \<Rightarrow> string + dict"
  GITHUB_TOKEN_ENV :: "string option"
  analyze_leetcode :: "string \<Rightarrow> string + json"
  analyze_codechef :: "string \<Rightarrow> string + json"

text \<open>The helper calls of one request, in order.\<close>

datatype call =
    Resume upload
  | Extract_username string
  | Repo_counts string string
  | Pr_metrics string string
  | Leetcode string
  | Codechef string

text \<open>What the route returns: \<open>JSONResponse(content, status_code)\<close> or the \<open>results\<close>
  dictionary.\<close>

datatype reply = JSONResponse json int | Results dict

text \<open>Truth value of a Python object.\<close>

fun truthy :: "json \<Rightarrow> bool" where
  "truthy JNull = False"
| "truthy (JBool b) = b"
| "truthy (JInt n) = (n \<noteq> 0)"
| "truthy (JFloat r) = (r \<noteq> 0)"
| "truthy (JStr s) = (s \<noteq> [])"
| "truthy (JList xs) = (xs \<noteq> [])"
| "truthy (JObj d) = (d \<noteq> [])"

text \<open>\<open>d[k] = v\<close>, \<open>k in d\<close> and \<open>{**a, **b}\<close> on a dictionary given by its items.\<close>

fun dict_set :: "(string \<times> 'v) list \<Rightarrow> string \<Rightarrow> 'v \<Rightarrow> (string \<times> 'v) list" where
  "dict_set [] k v = [(k, v)]"
| "dict_set ((k', v') # d) k v = (if k' = k then (k, v) # d else (k', v') # dict_set d k v)"

definition has_key :: "(string \<times> 'v) list \<Rightarrow> string \<Rightarrow> bool" where
  "has_key d k = (k \<in> set (map fst d))"

definition dict_merge :: "dict \<Rightarrow> dict \<Rightarrow> dict" where
  "dict_merge a b = foldl (\<lambda>d (k, v). dict_set d k v) a b"

text \<open>\<open>isinstance(resume_result, dict) and resume_result.get("error")\<close>.\<close>

definition resume_error :: "json \<Rightarrow> bool" where
  "resume_error resume_result =
     (case resume_result of JObj d \<Rightarrow> truthy (dict_get d ''error'' JNull) | _ \<Rightarrow> False)"

text \<open>The two sub-calls, once a username and a token are there.\<close>

definition github_metrics :: "helpers \<Rightarrow> string \<Rightarrow> string \<Rightarrow> dict \<Rightarrow> dict \<times> call list" where
  "github_metrics H username token_to_use results =
     (case get_github_repo_counts H username token_to_use of
        Inl e \<Rightarrow> (dict_set results ''github_error'' (JStr e), [Repo_counts username token_to_use])
      | Inr gql \<Rightarrow>
          if has_key gql ''error_graphql'' then
            (dict_set results ''github_error'' (dict_get gql ''error_graphql'' JNull),
             [Repo_counts username token_to_use])
          else
            (case get_pr_metrics H username token_to_use of
               Inl e \<Rightarrow>
                 (dict_set results ''github_error'' (JStr e),
                  [Repo_counts username token_to_use, Pr_metrics username token_to_use])
             | Inr pr \<Rightarrow>
                 if has_key pr ''error_pr_api'' then
                   (dict_set results ''github_error'' (dict_get pr ''error_pr_api'' JNull),
                    [Repo_counts username token_to_use, Pr_metrics username token_to_use])
                 else
                   (let combined = dict_merge gql pr in
                    (dict_set results ''github''
                       (JObj [(''username'', JStr username), (''github_metrics'', JObj combined)]),
                     [Repo_counts username token_to_use, Pr_metrics username token_to_use]))))"

text \<open>
  The \<open>if github:\<close> block with its \<open>try\<close>/\<open>except Exception\<close>. \<open>not username\<close> holds
  of \<open>None\<close> and of the empty string, and so does \<open>not token_to_use\<close>.
\<close>

definition github_block ::
  "helpers \<Rightarrow> string option \<Rightarrow> string option \<Rightarrow> dict \<Rightarrow> dict \<times> call list" where
  "github_block H github token results =
     (case github of
        None \<Rightarrow> (results, [])
      | Some g \<Rightarrow>
          if g = [] then (results, [])
          else
            (let no_username = dict_set results ''github_error''
                                 (JStr ''Could not parse GitHub username from input'');
                 no_token = dict_set results ''github_error''
                   (JStr ''GitHub token missing. Pass ?token=... or set GITHUB_TOKEN env variable'')
             in case extract_username_from_input H g of
                  Inl e \<Rightarrow> (dict_set results ''github_error'' (JStr e), [Extract_username g])
                | Inr None \<Rightarrow> (no_username, [Extract_username g])
                | Inr (Some username) \<Rightarrow>
                    if username = [] then (no_username, [Extract_username g])
                    else
                      (case (if truthy_str token then token else GITHUB_TOKEN_ENV H) of
                         None \<Rightarrow> (no_token, [Extract_username g])
                       | Some token_to_use \<Rightarrow>
                           if token_to_use = [] then (no_token, [Extract_username g])
                           else
                             (let (results', calls) =
                                    github_metrics H username token_to_use results
                              in (results', Extract_username g # calls)))))"

definition leetcode_block :: "helpers \<Rightarrow> string option \<Rightarrow> dict \<Rightarrow> dict \<times> call list" where
  "leetcode_block H leetcode results =
     (case leetcode of
        None \<Rightarrow> (results, [])
      | Some l \<Rightarrow>
          if l = [] then (results, [])
          else
            (case analyze_leetcode H l of
               Inr lc_data \<Rightarrow> (dict_set results ''leetcode'' lc_data, [Leetcode l])
             | Inl e \<Rightarrow> (dict_set results ''leetcode_error'' (JStr e), [Leetcode l])))"

definition codechef_block :: "helpers \<Rightarrow> string option \<Rightarrow> dict \<Rightarrow> dict \<times> call list" where
  "codechef_block H codechef results =
     (case codechef of
        None \<Rightarrow> (results, [])
      | Some c \<Rightarrow>
          if c = [] then (results, [])
          else
            (case analyze_codechef H c of
               Inr cc_data \<Rightarrow> (dict_set results ''codechef'' cc_data, [Codechef c])
             | Inl e \<Rightarrow> (dict_set results ''codechef_error'' (JStr e), [Codechef c])))"

text \<open>
  \<open>analyze_all\<close>: the reply, or \<open>Inl\<close> of the exception that leaves the route (the
  resume helper is called outside every \<open>try\<close>), and the helper calls made.
\<close>

definition analyze_all ::
  "helpers \<Rightarrow> upload \<Rightarrow> string option \<Rightarrow> string option \<Rightarrow> string option \<Rightarrow> string option
     \<Rightarrow> (string + reply) \<times> call list" where
  "analyze_all H file github leetcode codechef token =
     (case process_resume_file H file of
        Inl e \<Rightarrow> (Inl e, [Resume file])
      | Inr resume_result \<Rightarrow>
          if resume_error resume_result then
            (Inr (JSONResponse resume_result 400), [Resume file])
          else
            (let results = dict_set [] ''resume'' resume_result;
                 (results, github_calls) = github_block H github token results;
                 (results, leetcode_calls) = leetcode_block H leetcode results;
                 (results, codechef_calls) = codechef_block H codechef results
             in (Inr (Results results),
                 Resume file # github_calls @ leetcode_calls @ codechef_calls)))"

section \<open>Vocabulary of the properties\<close>

text \<open>
  The definitions of this section are not code of the program: the theorems are stated
  with them.

  The text \<open>predict_role\<close> sends and examines: the input stripped, and cut at 2000
  characters.
\<close>

definition query_text :: "string \<Rightarrow> string" where
  "query_text inputs =
     (let text = strip inputs in if length text > 2000 then take 2000 text else text)"

text \<open>The request an attempt posts first: with \<open>auth_headers\<close> when a key is configured.\<close>

definition first_request :: "string option \<Rightarrow> string \<Rightarrow> request" where
  "first_request key text =
     hf_request (if truthy_str key then auth_headers key else base_headers) text"

text \<open>The response built from the keyword heuristic.\<close>

definition heuristic_response :: "string \<Rightarrow> PredictRoleResponse" where
  "heuristic_response text =
     \<lparr>predicted_label = heuristic_label text,
      recommended_roles = fresher_roles (map_label_to_roles (heuristic_label text)),
      confidence = 0.5\<rparr>"

text \<open>
  A label/score record: a dictionary with a string \<open>label\<close> and a \<open>score\<close> that is a
  \<open>float\<close>, or an \<open>int\<close> that is a \<open>float\<close> exactly.
\<close>

fun label_score :: "json \<Rightarrow> (string \<times> real) option" where
  "label_score (JObj d) =
     (case (map_of d ''label'', map_of d ''score'') of
        (Some (JStr l), Some (JFloat s)) \<Rightarrow> Some (l, s)
      | (Some (JStr l), Some (JInt n)) \<Rightarrow>
          if \<bar>n\<bar> \<le> 2 ^ 53 then Some (l, of_int n) else None
      | _ \<Rightarrow> None)"
| "label_score v = None"

text \<open>
  The record of maximal score, the first one among equals: what the specification says the
  controller selects, written on the records; \<open>b\<close> is the best record so far.
\<close>

fun first_max :: "(string \<times> real) \<Rightarrow> (string \<times> real) list \<Rightarrow> (string \<times> real)" where
  "first_max b [] = b"
| "first_max b (r # rs) = (if snd r > snd b then first_max r rs else first_max b rs)"

text \<open>\<open>isinstance(data, list)\<close>.\<close>

fun is_list :: "json \<Rightarrow> bool" where
  "is_list (JList xs) = True"
| "is_list v = False"

text \<open>
  The keyword groups with their labels as a table, in the priority order of the
  specification: the heuristic is compared with a first-match search in it.
\<close>

definition keyword_groups :: "(string list \<times> string) list" where
  "keyword_groups =
    [([''react'', ''angular'', ''vue'', ''frontend''], ''technology''),
     ([''python'', ''java'', ''node'', ''backend'', ''api''], ''programming''),
     ([''ui'', ''ux'', ''figma'', ''design''], ''creativity''),
     ([''data'', ''analysis'', ''excel'', ''power bi'', ''sql''], ''analysis''),
     ([''ml'', ''machine learning'', ''deep learning'', ''tensorflow'', ''pytorch''], ''learning''),
     ([''business'', ''requirements'', ''stakeholder''], ''organization''),
     ([''security'', ''cyber'', ''vulnerability'', ''network''], ''responsibility'')]"

text \<open>\<open>k in v\<close> for a value that is a dictionary; no other value has keys.\<close>

fun object_has_key :: "json \<Rightarrow> string \<Rightarrow> bool" where
  "object_has_key (JObj d) k = has_key d k"
| "object_has_key v k = False"

text \<open>The keys of the JSON object a reply carries.\<close>

fun reply_has_key :: "reply \<Rightarrow> string \<Rightarrow> bool" where
  "reply_has_key (Results d) k = has_key d k"
| "reply_has_key (JSONResponse (JObj d) code) k = has_key d k"
| "reply_has_key (JSONResponse v code) k = False"

text \<open>The keys the optional sources write.\<close>

definition source_keys :: "string list" where
  "source_keys = [''github'', ''github_error'', ''leetcode'', ''leetcode_error'',
                  ''codechef'', ''codechef_error'']"

text \<open>
  When a GitHub sub-call fails, and with what message: it raised, or the dictionary it
  returned has the error key.
\<close>

definition failure_message :: "string \<Rightarrow> string + dict \<Rightarrow> json option" where
  "failure_message error_key outcome =
     (case outcome of
        Inl e \<Rightarrow> Some (JStr e)
      | Inr d \<Rightarrow> if has_key d error_key then Some (dict_get d error_key JNull) else None)"

text \<open>
  A sample of helpers to evaluate \<open>analyze_all\<close> on: the file \<open>cv.exe\<close> is rejected by the
  resume helper, the pull-request sub-call reports an error, LeetCode raises, CodeChef answers.
\<close>

definition sample_helpers :: helpers where
  "sample_helpers =
     \<lparr>process_resume_file =
        (\<lambda>f. if f = ''cv.exe'' then Inr (JObj [(''error'', JStr ''Unsupported file type'')])
             else Inr (JObj [(''skills'', JList [JStr ''python''])])),
      extract_username_from_input = (\<lambda>g. Inr (Some g)),
      get_github_repo_counts = (\<lambda>u t. Inr [(''total_repos'', JInt 3)]),
      get_pr_metrics = (\<lambda>u t. Inr [(''error_pr_api'', JStr ''rate limited'')]),
      GITHUB_TOKEN_ENV = Some ''ghp_env'',
      analyze_leetcode = (\<lambda>l. Inl ''user not found''),
      analyze_codechef = (\<lambda>c. Inr (JObj [(''rating'', JInt 1500)]))\<rparr>"

section \<open>Lemmas about the role predictor\<close>

lemma hf_loop_raises_http:
  "fst (hf_loop key remote text mr k attempt n le) = Inl e \<Longrightarrow> \<exists>code d. e = HTTPException code d"
proof (induction k arbitrary: attempt n le)
  case 0
  then show ?case by (cases le rule: raise_last_error.cases) auto
next
  case (Suc k)
  then show ?case
    by (auto split: prod.splits sum.splits) (metis fst_conv)
qed

lemma call_hf_api_raises_http:
  "fst (call_hf_api key remote text mr) = Inl e \<Longrightarrow> \<exists>code d. e = HTTPException code d"
  unfolding call_hf_api_def by (rule hf_loop_raises_http)

lemma build_response_empty: "build_response [] text = Inr (heuristic_response text)"
  by (simp add: build_response_def label_and_score_def heuristic_response_def)

lemma predict_role_unfold:
  "strip inputs \<noteq> [] \<Longrightarrow>
   predict_role key remote inputs =
     (case fst (call_hf_api key remote (query_text inputs) 2) of
        Inr predictions \<Rightarrow> build_response predictions (query_text inputs)
      | Inl (HTTPException code d) \<Rightarrow> build_response [] (query_text inputs)
      | Inl e \<Rightarrow> Inl e,
      snd (call_hf_api key remote (query_text inputs) 2))"
proof -
  assume ne: "strip inputs \<noteq> []"
  have q: "(if 2000 < length (strip inputs) then take 2000 (strip inputs) else strip inputs)
             = query_text inputs"
    by (simp add: query_text_def)
  show ?thesis
    unfolding predict_role_def Let_def q using ne
    by (simp add: case_prod_beta)
qed

lemma predict_role_call_fails:
  assumes "strip inputs \<noteq> []" and "fst (call_hf_api key remote (query_text inputs) 2) = Inl e"
  shows "fst (predict_role key remote inputs) = Inr (heuristic_response (query_text inputs))"
proof -
  obtain code d where "e = HTTPException code d"
    using call_hf_api_raises_http [OF assms(2)] by blast
  with assms show ?thesis
    by (simp add: predict_role_unfold build_response_empty)
qed

lemma predict_role_call_empty:
  assumes "strip inputs \<noteq> []" and "fst (call_hf_api key remote (query_text inputs) 2) = Inr []"
  shows "fst (predict_role key remote inputs) = Inr (heuristic_response (query_text inputs))"
  using assms by (simp add: predict_role_unfold build_response_empty)

lemma label_score_SomeD:
  "label_score p = Some (l, s) \<Longrightarrow>
     \<exists>d v. p = JObj d \<and> map_of d ''label'' = Some (JStr l) \<and> map_of d ''score'' = Some v
       \<and> as_number v = Some s \<and> py_float v = Inr s"
  by (cases p) (auto split: option.splits json.splits if_splits)

lemma score_key_record:
  "label_score p = Some (l, s) \<Longrightarrow> \<exists>v. score_key p = Inr v \<and> as_number v = Some s"
  by (auto dest!: label_score_SomeD simp: score_key_def dict_get_def)

lemma py_gt_numbers:
  "as_number a = Some x \<Longrightarrow> as_number b = Some y \<Longrightarrow> py_gt a b = Inr (x > y)"
  by (simp add: py_gt_def)

lemma max_loop_records:
  "map label_score ps = map Some rs \<Longrightarrow> label_score m = Some b \<Longrightarrow>
   as_number mk = Some (snd b) \<Longrightarrow>
     \<exists>q. max_loop m mk ps = Inr q \<and> label_score q = Some (first_max b rs)"
proof (induction ps arbitrary: rs m mk b)
  case Nil
  then show ?case by simp
next
  case (Cons p ps)
  from Cons.prems(1) obtain r rs' where rs: "rs = r # rs'" and p: "label_score p = Some r"
    and rest: "map label_score ps = map Some rs'"
    by (cases rs) auto
  from score_key_record [of p "fst r" "snd r"] p
  obtain k where key: "score_key p = Inr k" and k: "as_number k = Some (snd r)" by auto
  have gt: "py_gt k mk = Inr (snd r > snd b)"
    using k Cons.prems(3) by (rule py_gt_numbers)
  show ?case
  proof (cases "snd r > snd b")
    case True
    with Cons.IH [OF rest p k] key gt show ?thesis
      by (simp add: rs)
  next
    case False
    with Cons.IH [OF rest Cons.prems(2,3)] key gt show ?thesis
      by (simp add: rs)
  qed
qed

lemma py_max_records:
  assumes "map label_score ps = map Some (r # rs)"
  shows "\<exists>q. py_max ps = Inr q \<and> label_score q = Some (first_max r rs)"
proof -
  from assms obtain p ps' where ps: "ps = p # ps'" and p: "label_score p = Some r"
    and rest: "map label_score ps' = map Some rs"
    by (cases ps) auto
  from score_key_record [of p "fst r" "snd r"] p
  obtain k where key: "score_key p = Inr k" and k: "as_number k = Some (snd r)" by auto
  from max_loop_records [OF rest p k] key show ?thesis
    by (simp add: py_max_def ps)
qed

lemma label_and_score_records:
  assumes "map label_score ps = map Some (r # rs)"
  shows "label_and_score ps text = Inr (first_max r rs)"
proof -
  from py_max_records [OF assms] obtain q where q: "py_max ps = Inr q"
    and lq: "label_score q = Some (first_max r rs)" by blast
  from label_score_SomeD [of q "fst (first_max r rs)" "snd (first_max r rs)"] lq
  obtain d v where d: "q = JObj d" "map_of d ''label'' = Some (JStr (fst (first_max r rs)))"
    "map_of d ''score'' = Some v" "py_float v = Inr (snd (first_max r rs))" by auto
  from assms have "ps \<noteq> []" by auto
  with q d show ?thesis
    by (simp add: label_and_score_def dict_get_def)
qed

lemma build_response_records:
  assumes "map label_score ps = map Some (r # rs)"
  shows "build_response ps text =
           Inr \<lparr>predicted_label = fst (first_max r rs),
                recommended_roles = fresher_roles (map_label_to_roles (fst (first_max r rs))),
                confidence = snd (first_max r rs)\<rparr>"
  by (simp add: build_response_def label_and_score_records [OF assms] case_prod_beta)

lemma first_max_ge: "snd b \<le> snd (first_max b rs)"
proof (induction rs arbitrary: b)
  case Nil
  then show ?case by simp
next
  case (Cons r rs)
  show ?case
  proof (cases "snd r > snd b")
    case True
    with Cons.IH [of r] show ?thesis by simp
  next
    case False
    with Cons.IH [of b] show ?thesis by simp
  qed
qed

lemma first_max_split:
  "\<exists>pre post. b # rs = pre @ first_max b rs # post
      \<and> (\<forall>y \<in> set pre. snd y < snd (first_max b rs))
      \<and> (\<forall>y \<in> set post. snd y \<le> snd (first_max b rs))"
proof (induction rs arbitrary: b)
  case Nil
  have "[b] = [] @ first_max b [] # []" by simp
  then show ?case by force
next
  case (Cons r rs)
  show ?case
  proof (cases "snd r > snd b")
    case True
    from Cons.IH [of r] obtain pre post where sp: "r # rs = pre @ first_max r rs # post"
      and lt: "\<forall>y \<in> set pre. snd y < snd (first_max r rs)"
      and le: "\<forall>y \<in> set post. snd y \<le> snd (first_max r rs)" by blast
    have "snd r \<le> snd (first_max r rs)" by (rule first_max_ge)
    with True have b: "snd b < snd (first_max r rs)" by simp
    have fm: "first_max b (r # rs) = first_max r rs" using True by simp
    have "b # r # rs = (b # pre) @ first_max r rs # post"
      using sp by simp
    moreover have "\<forall>y \<in> set (b # pre). snd y < snd (first_max r rs)"
      using lt b by simp
    ultimately show ?thesis unfolding fm using le by blast
  next
    case False
    from Cons.IH [of b] obtain pre post where sp: "b # rs = pre @ first_max b rs # post"
      and lt: "\<forall>y \<in> set pre. snd y < snd (first_max b rs)"
      and le: "\<forall>y \<in> set post. snd y \<le> snd (first_max b rs)" by blast
    have fm: "first_max b (r # rs) = first_max b rs" using False by simp
    show ?thesis
    proof (cases pre)
      case Nil
      with sp have x: "b = first_max b rs" and post: "post = rs" by auto
      have "b # r # rs = [] @ first_max b rs # (r # rs)" using x by simp
      moreover have "snd r \<le> snd (first_max b (r # rs))"
        using False first_max_ge [of b "r # rs"] by simp
      moreover have "\<forall>y \<in> set rs. snd y \<le> snd (first_max b (r # rs))"
        using le post fm by simp
      ultimately have "b # r # rs = [] @ first_max b rs # (r # rs)
          \<and> (\<forall>y \<in> set []. snd y < snd (first_max b rs))
          \<and> (\<forall>y \<in> set (r # rs). snd y \<le> snd (first_max b rs))"
        unfolding fm by simp
      then show ?thesis unfolding fm by blast
    next
      case (Cons p pre')
      with sp have p: "p = b" and rs: "rs = pre' @ first_max b rs # post" by auto
      from lt Cons p have bl: "snd b < snd (first_max b rs)" by simp
      with False have rl: "snd r < snd (first_max b rs)" by simp
      have "b # r # rs = (b # r # pre') @ first_max b rs # post"
        using rs by auto
      moreover have "\<forall>y \<in> set (b # r # pre'). snd y < snd (first_max b rs)"
        using lt Cons p bl rl by simp
      ultimately show ?thesis unfolding fm using le by blast
    qed
  qed
qed

lemma hf_attempt_eq:
  "hf_attempt key remote text n =
     (case remote n (first_request key text) of
        Post_raises msg \<Rightarrow> (Inl (Other msg), [Post (first_request key text)])
      | Responds res \<Rightarrow>
          if status_code res = 403 \<and> contains permission_signature (body_text res) then
            (case remote (n + 1) (hf_request base_headers text) of
               Post_raises msg \<Rightarrow>
                 (Inl (Other msg),
                  [Post (first_request key text), Post (hf_request base_headers text)])
             | Responds res2 \<Rightarrow>
                 (handle_response res2,
                  [Post (first_request key text), Post (hf_request base_headers text)]))
          else (handle_response res, [Post (first_request key text)]))"
  unfolding hf_attempt_def first_request_def Let_def by (rule refl)

lemma hf_attempt_plain:
  assumes "remote n (first_request key text) = Responds res"
    and "\<not> (status_code res = 403 \<and> contains permission_signature (body_text res))"
  shows "hf_attempt key remote text n = (handle_response res, [Post (first_request key text)])"
  using assms by (auto simp: hf_attempt_eq)

lemma hf_loop_failed_attempt:
  assumes "hf_attempt key remote text n = (Inl e, evs)"
  shows "hf_loop key remote text mr (Suc k) attempt n le =
           (fst (hf_loop key remote text mr k (attempt + 1) (n + length evs) (Some e)),
            (evs @ (if attempt < mr then [Sleep 0.5] else []))
              # snd (hf_loop key remote text mr k (attempt + 1) (n + length evs) (Some e)))"
  using assms by (simp add: case_prod_beta Let_def)

lemma handle_response_503:
  "status_code res = 503 \<Longrightarrow>
     handle_response res = Inl (Http 503 (Detail ''Model is loading, please retry shortly.''))"
  by (simp add: handle_response_def)

lemma hf_attempt_503:
  assumes "remote n (first_request key text) = Responds res" and "status_code res = 503"
  shows "hf_attempt key remote text n =
           (Inl (Http 503 (Detail ''Model is loading, please retry shortly.'')),
            [Post (first_request key text)])"
  using hf_attempt_plain [of remote n key "text" res] assms by (simp add: handle_response_503)

lemma call_hf_api_three_503:
  assumes "\<forall>n<3. \<exists>res. remote n (first_request key text) = Responds res \<and> status_code res = 503"
  shows "call_hf_api key remote text 2 =
           (Inl (HTTPException 503 (Detail ''Model is loading, please retry shortly.'')),
            [[Post (first_request key text), Sleep 0.5],
             [Post (first_request key text), Sleep 0.5],
             [Post (first_request key text)]])"
proof -
  let ?e = "Http 503 (Detail ''Model is loading, please retry shortly.'')"
  let ?evs = "[Post (first_request key text)]"
  from assms have a: "hf_attempt key remote text n = (Inl ?e, ?evs)" if "n < 3" for n
  proof -
    from assms that obtain res where "remote n (first_request key text) = Responds res"
      and "status_code res = 503" by blast
    then show ?thesis by (rule hf_attempt_503)
  qed
  have a0: "hf_attempt key remote text 0 = (Inl ?e, ?evs)"
    and a1: "hf_attempt key remote text (Suc 0) = (Inl ?e, ?evs)"
    and a2: "hf_attempt key remote text (Suc (Suc 0)) = (Inl ?e, ?evs)"
    using a [of 0] a [of "Suc 0"] a [of "Suc (Suc 0)"] by simp_all
  have n3: "nat (2 + 1) = Suc (Suc (Suc 0))" by simp
  show ?thesis
    unfolding call_hf_api_def n3
    by (simp add: a0 a1 a2)
qed

lemma py_gt_not_http: "py_gt a b \<noteq> Inl (HTTPException code d)"
  by (simp add: py_gt_def split: option.splits prod.splits json.splits)

lemma score_key_not_http: "score_key p \<noteq> Inl (HTTPException code d)"
  by (simp add: score_key_def split: json.splits)

lemma max_loop_not_http: "max_loop m mk ps \<noteq> Inl (HTTPException code d)"
proof (induction ps arbitrary: m mk)
  case Nil
  then show ?case by simp
next
  case (Cons p ps)
  then show ?case
    using py_gt_not_http score_key_not_http
    by (auto split: sum.splits bool.splits)
qed

lemma py_max_not_http: "py_max ps \<noteq> Inl (HTTPException code d)"
  using max_loop_not_http score_key_not_http
  by (auto simp: py_max_def split: list.splits sum.splits)

lemma py_float_not_http: "py_float v \<noteq> Inl (HTTPException code d)"
  by (cases v) auto

lemma py_str_not_http: "py_str v \<noteq> Inl (HTTPException code d)"
  by (cases v) auto

lemma label_and_score_not_http: "label_and_score ps text \<noteq> Inl (HTTPException code d)"
  using py_max_not_http py_float_not_http py_str_not_http
  by (auto simp: label_and_score_def split: sum.splits json.splits)

lemma build_response_not_http: "build_response ps text \<noteq> Inl (HTTPException code d)"
  using label_and_score_not_http
  by (auto simp: build_response_def split: sum.splits prod.splits)

lemma predict_role_not_http:
  assumes "strip inputs \<noteq> []"
  shows "fst (predict_role key remote inputs) \<noteq> Inl (HTTPException code d)"
proof (cases "fst (call_hf_api key remote (query_text inputs) 2)")
  case (Inl e)
  then show ?thesis
    using predict_role_call_fails [OF assms Inl] by simp
next
  case (Inr ps)
  then show ?thesis
    using build_response_not_http by (simp add: predict_role_unfold [OF assms])
qed

lemma call_hf_api_three_failures:
  assumes "hf_attempt key remote text 0 = (Inl e0, [Post r])"
    and "hf_attempt key remote text (Suc 0) = (Inl e1, [Post r])"
    and "hf_attempt key remote text (Suc (Suc 0)) = (Inl e2, [Post r])"
  shows "call_hf_api key remote text 2 =
           (Inl (raise_last_error (Some e2)),
            [[Post r, Sleep 0.5], [Post r, Sleep 0.5], [Post r]])"
proof -
  have n3: "nat (2 + 1) = Suc (Suc (Suc 0))" by simp
  show ?thesis
    unfolding call_hf_api_def n3 by (simp add: assms)
qed

lemma build_response_well_formed:
  assumes "\<forall>p \<in> set ps. label_score p \<noteq> None"
  shows "\<exists>resp. build_response ps text = Inr resp"
proof (cases ps)
  case Nil
  then show ?thesis by (simp add: build_response_empty)
next
  case (Cons p ps')
  let ?rs = "map (\<lambda>p. case label_score p of Some r \<Rightarrow> r | None \<Rightarrow> ('''', 0)) ps"
  have "map label_score ps = map Some ?rs"
    using assms by (auto split: option.splits)
  moreover obtain r rs where "?rs = r # rs" using Cons by auto
  ultimately have "map label_score ps = map Some (r # rs)" by simp
  from build_response_records [OF this] show ?thesis by blast
qed

lemma unwrap_not_list: "\<not> is_list data \<Longrightarrow> unwrap_predictions data = None"
  by (cases data) auto

lemma unwrap_empty_list: "unwrap_predictions (JList []) = Some []"
  by simp

lemma unwrap_flat_records:
  "label_score p \<noteq> None \<Longrightarrow> unwrap_predictions (JList (p # ps)) = Some (p # ps)"
  by (cases p) auto

lemma handle_response_unexpected:
  assumes "status_code res < 400" and "status_code res \<noteq> 503"
    and "body_json res = Inr data" and "\<not> is_list data"
  shows "handle_response res = Inl (Http 500 (Unexpected_response data))"
  using assms by (simp add: handle_response_def unwrap_not_list)

lemma handle_response_list:
  assumes "status_code res < 400" and "status_code res \<noteq> 503"
    and "body_json res = Inr data" and "unwrap_predictions data = Some ps"
  shows "handle_response res = Inr ps"
  using assms by (simp add: handle_response_def)

lemma hf_attempt_events_head:
  "\<exists>evs. snd (hf_attempt key remote text n) = Post (first_request key text) # evs"
  by (simp add: hf_attempt_eq split: post_result.splits)

lemma hf_loop_log_head:
  "\<exists>evs rest. snd (hf_loop key remote text mr (Suc k) attempt n le)
      = (Post (first_request key text) # evs) # rest"
proof -
  obtain r evs where a: "hf_attempt key remote text n = (r, evs)" by (cases "hf_attempt key remote text n")
  from hf_attempt_events_head [of key remote "text" n] a
  obtain evs' where evs: "evs = Post (first_request key text) # evs'" by auto
  show ?thesis
  proof (cases r)
    case (Inl e)
    with a evs show ?thesis by (simp add: case_prod_beta Let_def)
  next
    case (Inr data)
    with a evs show ?thesis by simp
  qed
qed

lemma hf_loop_log_length:
  "length (snd (hf_loop key remote text mr k attempt n le)) \<le> k
   \<and> (\<forall>e. fst (hf_loop key remote text mr k attempt n le) = Inl e \<longrightarrow>
         length (snd (hf_loop key remote text mr k attempt n le)) = k)"
proof (induction k arbitrary: attempt n le)
  case 0
  then show ?case by simp
next
  case (Suc k)
  obtain r evs where a: "hf_attempt key remote text n = (r, evs)" by (cases "hf_attempt key remote text n")
  show ?case
  proof (cases r)
    case (Inl e)
    with a Suc.IH [of "attempt + 1" "n + length evs" "Some e"] show ?thesis
      by (simp add: case_prod_beta Let_def)
  next
    case (Inr data)
    with a show ?thesis by simp
  qed
qed

lemma hf_attempt_unexpected:
  assumes "remote n (first_request key text) = Responds res"
    and "200 \<le> status_code res" and "status_code res < 300"
    and "body_json res = Inr data" and "\<not> is_list data"
  shows "hf_attempt key remote text n =
           (Inl (Http 500 (Unexpected_response data)), [Post (first_request key text)])"
proof -
  from assms(2,3) have s: "status_code res \<noteq> 403" "status_code res < 400" "status_code res \<noteq> 503"
    by simp_all
  from hf_attempt_plain [of remote n key "text" res] assms(1) s(1)
  have "hf_attempt key remote text n = (handle_response res, [Post (first_request key text)])"
    by simp
  with handle_response_unexpected [OF s(2,3) assms(4,5)] show ?thesis by simp
qed

lemma hf_attempt_2xx:
  assumes "remote n (first_request key text) = Responds res"
    and "200 \<le> status_code res" and "status_code res < 300"
    and "body_json res = Inr data" and "unwrap_predictions data = Some ps"
  shows "hf_attempt key remote text n = (Inr ps, [Post (first_request key text)])"
proof -
  from assms(2,3) have s: "status_code res \<noteq> 403" "status_code res < 400" "status_code res \<noteq> 503"
    by simp_all
  from hf_attempt_plain [of remote n key "text" res] assms(1) s(1)
  have "hf_attempt key remote text n = (handle_response res, [Post (first_request key text)])"
    by simp
  with handle_response_list [OF s(2,3) assms(4,5)] show ?thesis by simp
qed

lemma call_hf_api_first_attempt:
  assumes "hf_attempt key remote text 0 = (Inr ps, evs)"
  shows "call_hf_api key remote text 2 = (Inr ps, [evs])"
proof -
  have n3: "nat (2 + 1) = Suc (Suc (Suc 0))" by simp
  show ?thesis unfolding call_hf_api_def n3 by (simp add: assms)
qed

lemma unwrap_records:
  assumes "map label_score ps = map Some (r # rs)"
    and "data = JList ps \<or> (\<exists>rest. data = JList (JList ps # rest))"
  shows "unwrap_predictions data = Some ps"
proof -
  from assms(1) obtain p ps' where ps: "ps = p # ps'" and "label_score p = Some r"
    by (cases ps) auto
  then have "unwrap_predictions (JList ps) = Some ps"
    using unwrap_flat_records [of p ps'] by simp
  with assms(2) show ?thesis by auto
qed

lemma starts_with_iff: "starts_with kw s \<longleftrightarrow> (\<exists>post. s = kw @ post)"
  by (induction kw s rule: starts_with.induct) auto

lemma contains_iff: "contains kw s \<longleftrightarrow> (\<exists>pre post. s = pre @ kw @ post)"
proof (induction s)
  case Nil
  then show ?case by auto
next
  case (Cons c cs)
  show ?case
  proof
    assume "contains kw (c # cs)"
    then consider "starts_with kw (c # cs)" | "contains kw cs" by auto
    then show "\<exists>pre post. c # cs = pre @ kw @ post"
    proof cases
      case 1
      then obtain post where "c # cs = kw @ post" using starts_with_iff by blast
      then have "c # cs = [] @ kw @ post" by simp
      then show ?thesis by blast
    next
      case 2
      with Cons.IH obtain pre post where "cs = pre @ kw @ post" by blast
      then have "c # cs = (c # pre) @ kw @ post" by simp
      then show ?thesis by blast
    qed
  next
    assume "\<exists>pre post. c # cs = pre @ kw @ post"
    then obtain pre post where eq: "c # cs = pre @ kw @ post" by blast
    show "contains kw (c # cs)"
    proof (cases pre)
      case Nil
      with eq have "starts_with kw (c # cs)" using starts_with_iff by auto
      then show ?thesis by simp
    next
      case (Cons p pre')
      with eq have "cs = pre' @ kw @ post" by simp
      with Cons.IH have "contains kw cs" by blast
      then show ?thesis by simp
    qed
  qed
qed

lemma contains_lower: "contains kw s \<Longrightarrow> contains (lower kw) (lower s)"
proof -
  assume "contains kw s"
  then obtain pre post where "s = pre @ kw @ post" using contains_iff by blast
  then have "lower s = lower pre @ lower kw @ lower post" by (simp add: lower_def)
  then show ?thesis using contains_iff by blast
qed

lemma react_in_lowered: "contains ''react'' text \<Longrightarrow> contains ''react'' (lower text)"
  using contains_lower [of "''react''" "text"] by (simp add: lower_def lower_char_def)

lemma heuristic_label_react:
  "contains ''react'' text \<Longrightarrow> heuristic_label text = ''technology''"
  using react_in_lowered [of "text"] by (simp add: heuristic_label_def any_in_def)

lemma heuristic_label_find:
  "heuristic_label text =
     (case find (\<lambda>(kws, label). any_in kws (lower text)) keyword_groups of
        Some (kws, label) \<Rightarrow> label
      | None \<Rightarrow> ''technology'')"
  unfolding heuristic_label_def keyword_groups_def Let_def by simp

lemma technology_roles:
  "fresher_roles (map_label_to_roles ''technology'') =
     [''Software Engineer - Fresher'', ''Full Stack Developer - Fresher'']"
  by (simp add: fresher_roles_def map_label_to_roles_def dict_get_def ROLE_MAP_def
      strip_def is_space_def lower_def lower_char_def)

lemma hf_attempt_events:
  "snd (hf_attempt key remote text n) =
     (case remote n (first_request key text) of
        Responds res \<Rightarrow>
          if status_code res = 403 \<and> contains permission_signature (body_text res) then
            [Post (first_request key text),
             Post ((first_request key text)\<lparr>headers := base_headers\<rparr>)]
          else [Post (first_request key text)]
      | Post_raises msg \<Rightarrow> [Post (first_request key text)])"
proof -
  have "(first_request key text)\<lparr>headers := base_headers\<rparr> = hf_request base_headers text"
    by (simp add: first_request_def hf_request_def)
  then show ?thesis
    by (simp add: hf_attempt_eq split: post_result.splits)
qed

lemma hf_loop_entries_head:
  "\<forall>evs \<in> set (snd (hf_loop key remote text mr k attempt n le)).
      \<exists>rest. evs = Post (first_request key text) # rest"
proof (induction k arbitrary: attempt n le)
  case 0
  then show ?case by simp
next
  case (Suc k)
  obtain r evs where a: "hf_attempt key remote text n = (r, evs)"
    by (cases "hf_attempt key remote text n")
  from hf_attempt_events_head [of key remote "text" n] a
  obtain evs' where evs: "evs = Post (first_request key text) # evs'" by auto
  show ?case
  proof (cases r)
    case (Inl e)
    with a evs Suc.IH [of "attempt + 1" "n + length evs" "Some e"] show ?thesis
      by (simp add: case_prod_beta Let_def)
  next
    case (Inr data)
    with a evs show ?thesis by simp
  qed
qed

lemma unexpected_shape_then_retry:
  assumes "strip inputs \<noteq> []"
    and "remote 0 (first_request key (query_text inputs)) = Responds res"
    and "200 \<le> status_code res" and "status_code res < 300"
    and "body_json res = Inr data" and "\<not> is_list data"
  shows "hf_attempt key remote (query_text inputs) 0 =
           (Inl (Http 500 (Unexpected_response data)),
            [Post (first_request key (query_text inputs))])
    \<and> (\<exists>evs rest. snd (predict_role key remote inputs) =
          [Post (first_request key (query_text inputs)), Sleep 0.5]
            # (Post (first_request key (query_text inputs)) # evs) # rest)
    \<and> ((\<forall>n<3. \<exists>res' data'. remote n (first_request key (query_text inputs)) = Responds res'
            \<and> 200 \<le> status_code res' \<and> status_code res' < 300
            \<and> body_json res' = Inr data' \<and> \<not> is_list data') \<longrightarrow>
          predict_role key remote inputs =
            (Inr \<lparr>predicted_label = heuristic_label (query_text inputs),
                  recommended_roles =
                    fresher_roles (map_label_to_roles (heuristic_label (query_text inputs))),
                  confidence = 0.5\<rparr>,
             [[Post (first_request key (query_text inputs)), Sleep 0.5],
              [Post (first_request key (query_text inputs)), Sleep 0.5],
              [Post (first_request key (query_text inputs))]]))"
proof (intro conjI impI)
  let ?t = "query_text inputs"
  let ?r = "first_request key ?t"
  have a0: "hf_attempt key remote ?t 0 = (Inl (Http 500 (Unexpected_response data)), [Post ?r])"
    using assms(2-6) by (rule hf_attempt_unexpected)
  then show "hf_attempt key remote ?t 0 = (Inl (Http 500 (Unexpected_response data)), [Post ?r])" .
  have n3: "nat (2 + 1) = Suc (Suc (Suc 0))" by simp
  from hf_loop_log_head [of key remote ?t 2 "Suc 0" 1 "Suc 0" "Some (Http 500 (Unexpected_response data))"]
  obtain evs rest where
    "snd (hf_loop key remote ?t 2 (Suc (Suc 0)) 1 (Suc 0) (Some (Http 500 (Unexpected_response data))))
       = (Post ?r # evs) # rest" by blast
  then have "snd (call_hf_api key remote ?t 2) = [Post ?r, Sleep 0.5] # (Post ?r # evs) # rest"
    unfolding call_hf_api_def n3
    by (simp del: hf_loop.simps add: hf_loop_failed_attempt [OF a0])
  then show "\<exists>evs rest. snd (predict_role key remote inputs) =
          [Post ?r, Sleep 0.5] # (Post ?r # evs) # rest"
    by (simp add: predict_role_unfold [OF assms(1)])
next
  let ?t = "query_text inputs"
  let ?r = "first_request key ?t"
  assume all: "\<forall>n<3. \<exists>res' data'. remote n ?r = Responds res'
            \<and> 200 \<le> status_code res' \<and> status_code res' < 300
            \<and> body_json res' = Inr data' \<and> \<not> is_list data'"
  have att: "\<exists>d. hf_attempt key remote ?t n = (Inl (Http 500 (Unexpected_response d)), [Post ?r])"
    if "n < 3" for n
  proof -
    from all that obtain res' data' where "remote n ?r = Responds res'"
      "200 \<le> status_code res'" "status_code res' < 300" "body_json res' = Inr data'"
      "\<not> is_list data'" by blast
    from hf_attempt_unexpected [of remote n key ?t res' data', OF this] show ?thesis by blast
  qed
  from att [of 0] obtain d0 where
    a0: "hf_attempt key remote ?t 0 = (Inl (Http 500 (Unexpected_response d0)), [Post ?r])" by auto
  from att [of "Suc 0"] obtain d1 where
    a1: "hf_attempt key remote ?t (Suc 0) = (Inl (Http 500 (Unexpected_response d1)), [Post ?r])"
    by auto
  from att [of "Suc (Suc 0)"] obtain d2 where
    a2: "hf_attempt key remote ?t (Suc (Suc 0)) = (Inl (Http 500 (Unexpected_response d2)), [Post ?r])"
    by auto
  from call_hf_api_three_failures [OF a0 a1 a2]
  show "predict_role key remote inputs =
          (Inr \<lparr>predicted_label = heuristic_label ?t,
                recommended_roles = fresher_roles (map_label_to_roles (heuristic_label ?t)),
                confidence = 0.5\<rparr>,
           [[Post ?r, Sleep 0.5], [Post ?r, Sleep 0.5], [Post ?r]])"
    by (simp add: predict_role_unfold [OF assms(1)] build_response_empty heuristic_response_def)
qed

lemma second_attempt_supplies_result:
  assumes "strip inputs \<noteq> []"
    and "remote 0 (first_request key (query_text inputs)) = Responds res"
    and "200 \<le> status_code res" and "status_code res < 300"
    and "body_json res = Inr data" and "\<not> is_list data"
    and "remote 1 (first_request key (query_text inputs)) = Responds res1"
    and "200 \<le> status_code res1" and "status_code res1 < 300"
    and "body_json res1 = Inr data1" and "unwrap_predictions data1 = Some ps"
  shows "predict_role key remote inputs =
           (build_response ps (query_text inputs),
            [[Post (first_request key (query_text inputs)), Sleep 0.5],
             [Post (first_request key (query_text inputs))]])"
proof -
  let ?t = "query_text inputs"
  let ?r = "first_request key ?t"
  have a0: "hf_attempt key remote ?t 0 = (Inl (Http 500 (Unexpected_response data)), [Post ?r])"
    using assms(2-6) by (rule hf_attempt_unexpected)
  have "remote (Suc 0) ?r = Responds res1" using assms(7) by simp
  then have a1: "hf_attempt key remote ?t (Suc 0) = (Inr ps, [Post ?r])"
    using assms(8-11) by (rule hf_attempt_2xx)
  have n3: "nat (2 + 1) = Suc (Suc (Suc 0))" by simp
  have "call_hf_api key remote ?t 2 = (Inr ps, [[Post ?r, Sleep 0.5], [Post ?r]])"
    unfolding call_hf_api_def n3 by (simp add: a0 a1)
  then show ?thesis
    by (simp add: predict_role_unfold [OF assms(1)])
qed

section \<open>Lemmas about the aggregator\<close>

lemma map_of_dict_set: "map_of (dict_set d k v) = (map_of d)(k \<mapsto> v)"
  by (induction d) (auto simp: fun_eq_iff)

lemma has_key_map_of: "has_key d k \<longleftrightarrow> map_of d k \<noteq> None"
  by (simp add: has_key_def map_of_eq_None_iff)

lemma has_key_dict_set: "has_key (dict_set d k v) k' \<longleftrightarrow> k' = k \<or> has_key d k'"
  by (auto simp: has_key_map_of map_of_dict_set)

lemma has_key_if_dict_set:
  "has_key (if c then dict_set d k v else d) k' \<longleftrightarrow> (c \<and> k' = k) \<or> has_key d k'"
  by (simp add: has_key_dict_set)

lemma github_metrics_sets:
  "\<exists>k v. fst (github_metrics H u t results) = dict_set results k v
     \<and> (k = ''github'' \<or> k = ''github_error'')"
  by (auto simp: github_metrics_def Let_def split: sum.splits)

lemma github_block_sets:
  "\<exists>k v. fst (github_block H github token results) =
            (if truthy_str github then dict_set results k v else results)
     \<and> (k = ''github'' \<or> k = ''github_error'')"
proof (cases "truthy_str github")
  case False
  then show ?thesis
    by (auto simp: github_block_def truthy_str_def split: option.splits)
next
  case True
  then obtain g where g: "github = Some g" "g \<noteq> []"
    by (auto simp: truthy_str_def split: option.splits)
  show ?thesis
  proof (cases "extract_username_from_input H g")
    case (Inl e)
    with g True show ?thesis by (auto simp: github_block_def Let_def)
  next
    case (Inr username)
    show ?thesis
    proof (cases "\<exists>u t. username = Some u \<and> u \<noteq> []
        \<and> (if truthy_str token then token else GITHUB_TOKEN_ENV H) = Some t \<and> t \<noteq> []")
      case False
      with g True Inr show ?thesis
        by (auto simp: github_block_def Let_def split: option.splits)
    next
      case yes: True
      then obtain u t where ut: "username = Some u" "u \<noteq> []"
        "(if truthy_str token then token else GITHUB_TOKEN_ENV H) = Some t" "t \<noteq> []" by blast
      from github_metrics_sets [of H u t results] obtain k v where
        "fst (github_metrics H u t results) = dict_set results k v"
        "k = ''github'' \<or> k = ''github_error''" by blast
      with g True Inr ut show ?thesis
        by (auto simp: github_block_def Let_def case_prod_beta)
    qed
  qed
qed

lemma leetcode_block_sets:
  "\<exists>k v. fst (leetcode_block H leetcode results) =
            (if truthy_str leetcode then dict_set results k v else results)
     \<and> (k = ''leetcode'' \<or> k = ''leetcode_error'')"
  by (auto simp: leetcode_block_def truthy_str_def split: option.splits sum.splits)

lemma codechef_block_sets:
  "\<exists>k v. fst (codechef_block H codechef results) =
            (if truthy_str codechef then dict_set results k v else results)
     \<and> (k = ''codechef'' \<or> k = ''codechef_error'')"
  by (auto simp: codechef_block_def truthy_str_def split: option.splits sum.splits)

lemma github_block_calls:
  "github = Some g \<Longrightarrow> g \<noteq> [] \<Longrightarrow>
     \<exists>rest. snd (github_block H github token results) = Extract_username g # rest"
  by (auto simp: github_block_def Let_def case_prod_beta split: option.splits sum.splits)

lemma leetcode_block_calls:
  "snd (leetcode_block H leetcode results) =
     (case leetcode of None \<Rightarrow> [] | Some l \<Rightarrow> if l = [] then [] else [Leetcode l])"
  by (auto simp: leetcode_block_def split: option.splits sum.splits)

lemma codechef_block_calls:
  "snd (codechef_block H codechef results) =
     (case codechef of None \<Rightarrow> [] | Some c \<Rightarrow> if c = [] then [] else [Codechef c])"
  by (auto simp: codechef_block_def split: option.splits sum.splits)

lemma analyze_all_unfold:
  assumes "process_resume_file H file = Inr resume_result" and "\<not> resume_error resume_result"
  shows "analyze_all H file github leetcode codechef token =
     (Inr (Results
        (fst (codechef_block H codechef
          (fst (leetcode_block H leetcode
            (fst (github_block H github token [(''resume'', resume_result)]))))))),
      Resume file
        # snd (github_block H github token [(''resume'', resume_result)])
        @ snd (leetcode_block H leetcode
            (fst (github_block H github token [(''resume'', resume_result)])))
        @ snd (codechef_block H codechef
            (fst (leetcode_block H leetcode
              (fst (github_block H github token [(''resume'', resume_result)]))))))"
  using assms by (simp add: analyze_all_def Let_def case_prod_beta)

lemma github_block_metrics:
  assumes "github = Some g" and "g \<noteq> []"
    and "extract_username_from_input H g = Inr (Some username)" and "username \<noteq> []"
    and "(if truthy_str token then token else GITHUB_TOKEN_ENV H) = Some token_to_use"
    and "token_to_use \<noteq> []"
  shows "github_block H github token results =
           (fst (github_metrics H username token_to_use results),
            Extract_username g # snd (github_metrics H username token_to_use results))"
  using assms by (simp add: github_block_def Let_def case_prod_beta)

lemma github_metrics_second_fails:
  assumes "failure_message ''error_graphql'' (get_github_repo_counts H u t) = None"
    and "failure_message ''error_pr_api'' (get_pr_metrics H u t) = Some m"
  shows "github_metrics H u t results =
           (dict_set results ''github_error'' m, [Repo_counts u t, Pr_metrics u t])"
  using assms
  by (auto simp: github_metrics_def failure_message_def split: sum.splits if_splits)

lemma github_metrics_first_fails:
  assumes "failure_message ''error_graphql'' (get_github_repo_counts H u t) = Some m"
  shows "github_metrics H u t results = (dict_set results ''github_error'' m, [Repo_counts u t])"
  using assms
  by (auto simp: github_metrics_def failure_message_def split: sum.splits if_splits)

lemma leetcode_block_keeps:
  assumes "k \<noteq> ''leetcode''" and "k \<noteq> ''leetcode_error''"
  shows "map_of (fst (leetcode_block H leetcode results)) k = map_of results k"
  using leetcode_block_sets [of H leetcode results] assms
  by (auto simp: map_of_dict_set)

lemma codechef_block_keeps:
  assumes "k \<noteq> ''codechef''" and "k \<noteq> ''codechef_error''"
  shows "map_of (fst (codechef_block H codechef results)) k = map_of results k"
  using codechef_block_sets [of H codechef results] assms
  by (auto simp: map_of_dict_set)

lemma leetcode_block_calls_no_pr: "Pr_metrics u t \<notin> set (snd (leetcode_block H leetcode results))"
  by (simp add: leetcode_block_calls split: option.splits)

lemma codechef_block_calls_no_pr: "Pr_metrics u t \<notin> set (snd (codechef_block H codechef results))"
  by (simp add: codechef_block_calls split: option.splits)

lemma leetcode_block_other_helpers:
  "leetcode_block (H\<lparr>get_github_repo_counts := f\<rparr>) leetcode results =
     leetcode_block H leetcode results"
  by (simp add: leetcode_block_def split: option.splits)

lemma codechef_block_other_helpers:
  "codechef_block (H\<lparr>get_github_repo_counts := f\<rparr>) codechef results =
     codechef_block H codechef results"
  by (simp add: codechef_block_def split: option.splits)

lemma analyze_all_github_error:
  assumes "process_resume_file H file = Inr resume_result" and "\<not> resume_error resume_result"
    and "github_block H github token [(''resume'', resume_result)] =
           (dict_set [(''resume'', resume_result)] ''github_error'' m, calls)"
  shows "analyze_all H file github leetcode codechef token =
     (Inr (Results
        (fst (codechef_block H codechef
          (fst (leetcode_block H leetcode
            (dict_set [(''resume'', resume_result)] ''github_error'' m)))))),
      Resume file # calls
        @ snd (leetcode_block H leetcode (dict_set [(''resume'', resume_result)] ''github_error'' m))
        @ snd (codechef_block H codechef
            (fst (leetcode_block H leetcode
              (dict_set [(''resume'', resume_result)] ''github_error'' m)))))"
  using analyze_all_unfold [OF assms(1,2), of github leetcode codechef token] assms(3) by simp

lemma github_error_recorded:
  "map_of (fst (codechef_block H codechef
          (fst (leetcode_block H leetcode
            (dict_set [(''resume'', resume_result)] ''github_error'' m))))) ''github_error'' = Some m
   \<and> \<not> has_key (fst (codechef_block H codechef
          (fst (leetcode_block H leetcode
            (dict_set [(''resume'', resume_result)] ''github_error'' m))))) ''github''"
  by (simp add: has_key_map_of codechef_block_keeps leetcode_block_keeps map_of_dict_set)

lemma reply_has_key_JSONResponse:
  "reply_has_key (JSONResponse v code) k = object_has_key v k"
  by (cases v) simp_all

text \<open>
  The resume helper is called outside every \<open>try\<close>: an exception it raises leaves the
  route, after the resume call alone, and there is no reply with status 400.
\<close>

lemma resume_exception_propagates:
  "process_resume_file H file = Inl e \<Longrightarrow>
     analyze_all H file github leetcode codechef token = (Inl e, [Resume file])"
  by (simp add: analyze_all_def)

section \<open>Remote failures and the caller\<close>

text \<open>
  What \<open>predict_role\<close> does for every input that is not blank (not empty once stripped):
  no \<open>HTTPException\<close> reaches its caller; whenever the remote call raises, the result is
  the keyword heuristic's, with confidence 0.5; a list of label/score records gives a result
  too. When the first three posts are answered with status 503, there are exactly three
  attempts of one post each, a sleep of 0.5 after the first and after the second, none after
  the third, and the result is the heuristic's.
\<close>

lemma predict_role_absorbs_remote_failures:
  assumes "strip inputs \<noteq> []"
  shows "(\<forall>code d. fst (predict_role key remote inputs) \<noteq> Inl (HTTPException code d))
    \<and> (\<forall>e. fst (call_hf_api key remote (query_text inputs) 2) = Inl e \<longrightarrow>
          fst (predict_role key remote inputs) =
            Inr \<lparr>predicted_label = heuristic_label (query_text inputs),
                 recommended_roles =
                   fresher_roles (map_label_to_roles (heuristic_label (query_text inputs))),
                 confidence = 0.5\<rparr>)
    \<and> (\<forall>ps. fst (call_hf_api key remote (query_text inputs) 2) = Inr ps
              \<and> (\<forall>p \<in> set ps. label_score p \<noteq> None) \<longrightarrow>
          (\<exists>resp. fst (predict_role key remote inputs) = Inr resp))
    \<and> ((\<forall>n<3. \<exists>res. remote n (first_request key (query_text inputs)) = Responds res
                    \<and> status_code res = 503) \<longrightarrow>
          predict_role key remote inputs =
            (Inr \<lparr>predicted_label = heuristic_label (query_text inputs),
                  recommended_roles =
                    fresher_roles (map_label_to_roles (heuristic_label (query_text inputs))),
                  confidence = 0.5\<rparr>,
             [[Post (first_request key (query_text inputs)), Sleep 0.5],
              [Post (first_request key (query_text inputs)), Sleep 0.5],
              [Post (first_request key (query_text inputs))]]))"
proof (intro conjI allI impI)
  fix code d
  show "fst (predict_role key remote inputs) \<noteq> Inl (HTTPException code d)"
    by (rule predict_role_not_http [OF assms])
next
  fix e
  assume "fst (call_hf_api key remote (query_text inputs) 2) = Inl e"
  from predict_role_call_fails [OF assms this]
  show "fst (predict_role key remote inputs) =
          Inr \<lparr>predicted_label = heuristic_label (query_text inputs),
               recommended_roles =
                 fresher_roles (map_label_to_roles (heuristic_label (query_text inputs))),
               confidence = 0.5\<rparr>"
    by (simp add: heuristic_response_def)
next
  fix ps
  assume "fst (call_hf_api key remote (query_text inputs) 2) = Inr ps
            \<and> (\<forall>p \<in> set ps. label_score p \<noteq> None)"
  then show "\<exists>resp. fst (predict_role key remote inputs) = Inr resp"
    using build_response_well_formed [of ps "query_text inputs"]
    by (simp add: predict_role_unfold [OF assms])
next
  assume "\<forall>n<3. \<exists>res. remote n (first_request key (query_text inputs)) = Responds res
                    \<and> status_code res = 503"
  from call_hf_api_three_503 [of remote key "query_text inputs", OF this]
  show "predict_role key remote inputs =
          (Inr \<lparr>predicted_label = heuristic_label (query_text inputs),
                recommended_roles =
                  fresher_roles (map_label_to_roles (heuristic_label (query_text inputs))),
                confidence = 0.5\<rparr>,
           [[Post (first_request key (query_text inputs)), Sleep 0.5],
            [Post (first_request key (query_text inputs)), Sleep 0.5],
            [Post (first_request key (query_text inputs))]])"
    by (simp add: predict_role_unfold [OF assms] build_response_empty heuristic_response_def)
qed

lemma three_503_example:
  "predict_role None
     (\<lambda>n req. Responds \<lparr>status_code = 503, body_text = ''loading'', body_json = Inl ''no JSON''\<rparr>)
     '' I know React '' =
     (Inr \<lparr>predicted_label = ''technology'',
           recommended_roles =
             [''Software Engineer - Fresher'', ''Full Stack Developer - Fresher''],
           confidence = 0.5\<rparr>,
      [[Post \<lparr>url = HUGGINGFACE_API_URL,
              headers = [(''Content-Type'', ''application/json'')],
              json_payload = [(''inputs'', ''I know React'')]\<rparr>, Sleep 0.5],
       [Post \<lparr>url = HUGGINGFACE_API_URL,
              headers = [(''Content-Type'', ''application/json'')],
              json_payload = [(''inputs'', ''I know React'')]\<rparr>, Sleep 0.5],
       [Post \<lparr>url = HUGGINGFACE_API_URL,
              headers = [(''Content-Type'', ''application/json'')],
              json_payload = [(''inputs'', ''I know React'')]\<rparr>]])"
  using predict_role_absorbs_remote_failures
    [of "'' I know React ''" None
      "\<lambda>n req. Responds \<lparr>status_code = 503, body_text = ''loading'', body_json = Inl ''no JSON''\<rparr>"]
  by (simp add: strip_def is_space_def query_text_def first_request_def truthy_str_def
      base_headers_def hf_request_def heuristic_label_def any_in_def lower_def lower_char_def
      fresher_roles_def map_label_to_roles_def dict_get_def ROLE_MAP_def)

text \<open>The guard after \<open>strip\<close>: a blank input is refused before any remote attempt.\<close>

lemma blank_input_rejected:
  "strip inputs = [] \<Longrightarrow>
     predict_role key remote inputs =
       (Inl (HTTPException 400 (Detail ''inputs field must not be empty'')), [])"
  by (simp add: predict_role_def)

lemma blank_input_example:
  "'' '' \<noteq> ''''
   \<and> predict_role None
     (\<lambda>n req. Responds \<lparr>status_code = 503, body_text = ''loading'', body_json = Inl ''no JSON''\<rparr>)
     '' '' =
     (Inl (HTTPException 400 (Detail ''inputs field must not be empty'')), [])"
  by (simp add: predict_role_def strip_def is_space_def)

text \<open>
  Two more answers of the service that end in an exception: a record whose score is
  \<open>null\<close>, and one whose score is an integer beyond the range of \<open>float\<close>.
\<close>

lemma null_score_raises:
  "predict_role None
     (\<lambda>n req. Responds \<lparr>status_code = 200, body_text = ''[{}]'',
        body_json = Inr (JList [JObj [(''label'', JStr ''joy''), (''score'', JNull)]])\<rparr>)
     ''react developer'' =
     (Inl TypeError, [[Post (hf_request base_headers ''react developer'')]])"
  by (simp add: predict_role_def Let_def strip_def is_space_def call_hf_api_def numeral_3_eq_3
      hf_attempt_def truthy_str_def handle_response_def permission_signature_def
      build_response_def label_and_score_def py_max_def score_key_def dict_get_def)

lemma huge_integer_score_raises:
  "predict_role None
     (\<lambda>n req. Responds \<lparr>status_code = 200, body_text = ''[{}]'',
        body_json = Inr (JList [JObj [(''label'', JStr ''joy''), (''score'', JInt (2 ^ 1024))]])\<rparr>)
     ''react developer'' =
     (Inl OverflowError, [[Post (hf_request base_headers ''react developer'')]])"
  by (simp add: predict_role_def Let_def strip_def is_space_def call_hf_api_def numeral_3_eq_3
      hf_attempt_def truthy_str_def handle_response_def permission_signature_def
      build_response_def label_and_score_def py_max_def score_key_def dict_get_def)

text \<open>
  C1. \<open>predict_role\<close> does not return a result for every input that is not blank: when the
  service answers HTTP 2xx with the list \<open>[1]\<close>, whose item is no dictionary and has no
  \<open>get\<close>, \<open>max\<close> raises \<open>AttributeError\<close>; \<open>except HTTPException\<close> does not catch it, and
  it reaches the caller after one post, with no fallback to the heuristic.
\<close>

theorem non_record_item_raises:
  "predict_role None
     (\<lambda>n req. Responds \<lparr>status_code = 200, body_text = ''[1]'',
                          body_json = Inr (JList [JInt 1])\<rparr>)
     ''react developer'' =
     (Inl AttributeError, [[Post (hf_request base_headers ''react developer'')]])"
  by (simp add: predict_role_def Let_def strip_def is_space_def call_hf_api_def numeral_3_eq_3
      hf_attempt_def truthy_str_def handle_response_def permission_signature_def
      build_response_def label_and_score_def py_max_def score_key_def)

section \<open>A body of unexpected shape\<close>

text \<open>
  C2. An attempt answered with HTTP 2xx and a body that is not a list fails with the
  exception HTTP 500 "Unexpected HuggingFace response", and this failure is retried like
  every other one: the loop sleeps 0.5 and posts the request again. When the second attempt
  is answered with HTTP 2xx and a list, that list is the result of the call and the
  controller builds its answer from it. When all three attempts are answered with a body
  that is not a list, the call fails and the controller answers with the keyword heuristic.
\<close>

theorem unexpected_shape_is_retried:
  assumes "strip inputs \<noteq> []"
    and "remote 0 (first_request key (query_text inputs)) = Responds res"
    and "200 \<le> status_code res" and "status_code res < 300"
    and "body_json res = Inr data" and "\<not> is_list data"
  shows "hf_attempt key remote (query_text inputs) 0 =
           (Inl (Http 500 (Unexpected_response data)),
            [Post (first_request key (query_text inputs))])
    \<and> (\<exists>evs rest. snd (predict_role key remote inputs) =
          [Post (first_request key (query_text inputs)), Sleep 0.5]
            # (Post (first_request key (query_text inputs)) # evs) # rest)
    \<and> (\<forall>res1 data1 ps.
          remote 1 (first_request key (query_text inputs)) = Responds res1
          \<and> 200 \<le> status_code res1 \<and> status_code res1 < 300
          \<and> body_json res1 = Inr data1 \<and> unwrap_predictions data1 = Some ps \<longrightarrow>
          predict_role key remote inputs =
            (build_response ps (query_text inputs),
             [[Post (first_request key (query_text inputs)), Sleep 0.5],
              [Post (first_request key (query_text inputs))]]))
    \<and> ((\<forall>n<3. \<exists>res' data'. remote n (first_request key (query_text inputs)) = Responds res'
            \<and> 200 \<le> status_code res' \<and> status_code res' < 300
            \<and> body_json res' = Inr data' \<and> \<not> is_list data') \<longrightarrow>
          predict_role key remote inputs =
            (Inr \<lparr>predicted_label = heuristic_label (query_text inputs),
                  recommended_roles =
                    fresher_roles (map_label_to_roles (heuristic_label (query_text inputs))),
                  confidence = 0.5\<rparr>,
             [[Post (first_request key (query_text inputs)), Sleep 0.5],
              [Post (first_request key (query_text inputs)), Sleep 0.5],
              [Post (first_request key (query_text inputs))]]))"
proof -
  have second: "predict_role key remote inputs =
            (build_response ps (query_text inputs),
             [[Post (first_request key (query_text inputs)), Sleep 0.5],
              [Post (first_request key (query_text inputs))]])"
    if "remote 1 (first_request key (query_text inputs)) = Responds res1
          \<and> 200 \<le> status_code res1 \<and> status_code res1 < 300
          \<and> body_json res1 = Inr data1 \<and> unwrap_predictions data1 = Some ps"
    for res1 data1 ps
    using second_attempt_supplies_result [of inputs remote key res data res1 data1 ps] assms that
    by blast
  from unexpected_shape_then_retry [of inputs remote key res data] assms second
  show ?thesis by blast
qed

theorem unexpected_shape_is_retried_witness:
  "predict_role None
     (\<lambda>n req. Responds \<lparr>status_code = 200, body_text = ''{}'',
                          body_json = Inr (JObj [(''error'', JStr ''busy'')])\<rparr>)
     ''react developer'' =
     (Inr \<lparr>predicted_label = ''technology'',
           recommended_roles =
             [''Software Engineer - Fresher'', ''Full Stack Developer - Fresher''],
           confidence = 0.5\<rparr>,
      [[Post (hf_request base_headers ''react developer''), Sleep 0.5],
       [Post (hf_request base_headers ''react developer''), Sleep 0.5],
       [Post (hf_request base_headers ''react developer'')]])
   \<and> predict_role None
     (\<lambda>n req.
        if n = 0 then
          Responds \<lparr>status_code = 200, body_text = ''{}'',
                    body_json = Inr (JObj [(''error'', JStr ''busy'')])\<rparr>
        else Responds \<lparr>status_code = 200, body_text = ''[]'', body_json = Inr (JList [])\<rparr>)
     ''react developer'' =
     (Inr \<lparr>predicted_label = ''technology'',
           recommended_roles =
             [''Software Engineer - Fresher'', ''Full Stack Developer - Fresher''],
           confidence = 0.5\<rparr>,
      [[Post (hf_request base_headers ''react developer''), Sleep 0.5],
       [Post (hf_request base_headers ''react developer'')]])"
  using unexpected_shape_is_retried
    [of "''react developer''"
      "\<lambda>n req. Responds \<lparr>status_code = 200, body_text = ''{}'',
                           body_json = Inr (JObj [(''error'', JStr ''busy'')])\<rparr>"
      None
      "\<lparr>status_code = 200, body_text = ''{}'',
        body_json = Inr (JObj [(''error'', JStr ''busy'')])\<rparr>"
      "JObj [(''error'', JStr ''busy'')]"]
    unexpected_shape_is_retried
    [of "''react developer''"
      "\<lambda>n req.
        if n = 0 then
          Responds \<lparr>status_code = 200, body_text = ''{}'',
                    body_json = Inr (JObj [(''error'', JStr ''busy'')])\<rparr>
        else Responds \<lparr>status_code = 200, body_text = ''[]'', body_json = Inr (JList [])\<rparr>"
      None
      "\<lparr>status_code = 200, body_text = ''{}'',
        body_json = Inr (JObj [(''error'', JStr ''busy'')])\<rparr>"
      "JObj [(''error'', JStr ''busy'')]"]
  by (simp add: strip_def is_space_def query_text_def first_request_def truthy_str_def
      build_response_def label_and_score_def
      heuristic_label_def any_in_def lower_def lower_char_def
      fresher_roles_def map_label_to_roles_def dict_get_def ROLE_MAP_def)

theorem unexpected_shape_counterexample:
  "predict_role None
     (\<lambda>n req.
        if n = 0 then
          Responds \<lparr>status_code = 200, body_text = ''{}'',
                    body_json = Inr (JObj [(''error'', JStr ''busy'')])\<rparr>
        else
          Responds \<lparr>status_code = 200, body_text = ''[[]]'',
                    body_json = Inr (JList [JList
                      [JObj [(''label'', JStr ''organization''), (''score'', JFloat 0.9)],
                       JObj [(''label'', JStr ''technology''), (''score'', JFloat 0.1)]]])\<rparr>)
     ''react developer'' =
     (Inr \<lparr>predicted_label = ''organization'',
           recommended_roles = [''Business Analyst - Fresher''],
           confidence = 0.9\<rparr>,
      [[Post (hf_request base_headers ''react developer''), Sleep 0.5],
       [Post (hf_request base_headers ''react developer'')]])"
  by (simp add: predict_role_def Let_def strip_def is_space_def call_hf_api_def numeral_3_eq_3
      hf_attempt_def truthy_str_def handle_response_def permission_signature_def
      build_response_def label_and_score_def py_max_def score_key_def py_gt_def dict_get_def
      fresher_roles_def map_label_to_roles_def lower_def lower_char_def ROLE_MAP_def)

section \<open>The anonymous second post\<close>

text \<open>
  C3. One attempt posts the request once, with the \<open>Authorization\<close> header when a key is
  configured, and posts it a second time, the same but for the headers, which are the base
  headers without \<open>Authorization\<close>, if and only if the first response has status 403 and
  the permission signature in its body; there is never a third post. The second post
  belongs to the same attempt: a call makes at most \<open>max_retries + 1\<close> attempts, exactly that
  many when it fails, and every attempt begins with the first request.
\<close>

theorem permission_downgrade_within_attempt:
  "snd (hf_attempt key remote text n) =
     (case remote n (first_request key text) of
        Responds res \<Rightarrow>
          if status_code res = 403 \<and> contains permission_signature (body_text res) then
            [Post (first_request key text),
             Post ((first_request key text)\<lparr>headers := base_headers\<rparr>)]
          else [Post (first_request key text)]
      | Post_raises msg \<Rightarrow> [Post (first_request key text)])
   \<and> \<not> has_key base_headers ''Authorization''
   \<and> length (snd (call_hf_api key remote text max_retries)) \<le> nat (max_retries + 1)
   \<and> (\<forall>e. fst (call_hf_api key remote text max_retries) = Inl e \<longrightarrow>
         length (snd (call_hf_api key remote text max_retries)) = nat (max_retries + 1))
   \<and> (\<forall>evs \<in> set (snd (call_hf_api key remote text max_retries)).
         \<exists>rest. evs = Post (first_request key text) # rest)"
  using hf_attempt_events [of key remote "text" n]
    hf_loop_log_length [of key remote "text" max_retries "nat (max_retries + 1)" 0 0 None]
    hf_loop_entries_head [of key remote "text" max_retries "nat (max_retries + 1)" 0 0 None]
  by (simp add: call_hf_api_def has_key_def base_headers_def)

theorem permission_downgrade_within_attempt_witness:
  "snd (hf_attempt (Some ''k'')
      (\<lambda>n req. if has_key (headers req) ''Authorization''
         then Responds \<lparr>status_code = 403,
                body_text = ''token does not have sufficient permissions'',
                body_json = Inr (JObj [])\<rparr>
         else Responds \<lparr>status_code = 503, body_text = ''loading'', body_json = Inr (JObj [])\<rparr>)
      ''python'' 0) =
     [Post (hf_request (base_headers @ [(''Authorization'', ''Bearer k'')]) ''python''),
      Post (hf_request base_headers ''python'')]
   \<and> length (snd (call_hf_api (Some ''k'')
      (\<lambda>n req. if has_key (headers req) ''Authorization''
         then Responds \<lparr>status_code = 403,
                body_text = ''token does not have sufficient permissions'',
                body_json = Inr (JObj [])\<rparr>
         else Responds \<lparr>status_code = 503, body_text = ''loading'', body_json = Inr (JObj [])\<rparr>)
      ''python'' 2)) = 3"
proof -
  let ?R = "\<lambda>(n::nat) req. if has_key (headers req) ''Authorization''
         then Responds \<lparr>status_code = 403,
                body_text = ''token does not have sufficient permissions'',
                body_json = Inr (JObj [])\<rparr>
         else Responds \<lparr>status_code = 503, body_text = ''loading'', body_json = Inr (JObj [])\<rparr>"
  have fails: "fst (call_hf_api (Some ''k'') ?R ''python'' 2) =
      Inl (HTTPException 503 (Detail ''Model is loading, please retry shortly.''))"
    by (simp add: call_hf_api_def numeral_3_eq_3 hf_attempt_def truthy_str_def auth_headers_def
        base_headers_def hf_request_def has_key_def handle_response_def permission_signature_def)
  show ?thesis
    using permission_downgrade_within_attempt [of "Some ''k''" ?R "''python''" 0 2] fails
    by (simp add: first_request_def truthy_str_def auth_headers_def hf_request_def has_key_def
        base_headers_def permission_signature_def)
qed

section \<open>A failed resume analysis\<close>

text \<open>
  C4. When the resume helper returns an error object (a dictionary with a truthy
  \<open>error\<close>), \<open>analyze_all\<close> answers with status 400 and that object, unchanged, as the
  body, after the resume call alone: no GitHub, LeetCode or CodeChef helper is called,
  whatever identifiers and token the request has. The keys of the body are the keys of the
  helper's object: the body has none of the source keys when that object has none.
\<close>

theorem resume_error_short_circuits:
  assumes "process_resume_file H file = Inr resume_result"
    and "resume_error resume_result"
  shows "analyze_all H file github leetcode codechef token =
           (Inr (JSONResponse resume_result 400), [Resume file])
    \<and> (\<forall>reply. fst (analyze_all H file github leetcode codechef token) = Inr reply \<longrightarrow>
          (\<forall>k. reply_has_key reply k \<longleftrightarrow> object_has_key resume_result k))
    \<and> ((\<forall>k \<in> set source_keys. \<not> object_has_key resume_result k) \<longrightarrow>
          (\<forall>reply. fst (analyze_all H file github leetcode codechef token) = Inr reply \<longrightarrow>
             \<not> list_ex (reply_has_key reply) source_keys))"
proof -
  have run: "analyze_all H file github leetcode codechef token =
      (Inr (JSONResponse resume_result 400), [Resume file])"
    using assms by (simp add: analyze_all_def)
  then show ?thesis
    by (auto simp: reply_has_key_JSONResponse list_ex_iff)
qed

theorem resume_error_short_circuits_witness:
  "analyze_all sample_helpers ''cv.exe'' (Some ''octocat'') (Some ''lc_user'') (Some ''cc_user'')
     None =
     (Inr (JSONResponse (JObj [(''error'', JStr ''Unsupported file type'')]) 400),
      [Resume ''cv.exe''])
   \<and> \<not> list_ex (reply_has_key (JSONResponse (JObj [(''error'', JStr ''Unsupported file type'')]) 400))
         source_keys"
  using resume_error_short_circuits
    [of sample_helpers "''cv.exe''" "JObj [(''error'', JStr ''Unsupported file type'')]"
      "Some ''octocat''" "Some ''lc_user''" "Some ''cc_user''" None]
  by (simp add: sample_helpers_def resume_error_def dict_get_def source_keys_def has_key_def)

theorem resume_failure_counterexample:
  "analyze_all
     (sample_helpers\<lparr>process_resume_file :=
        \<lambda>f. Inr (JObj [(''error'', JStr ''Unsupported file type''),
                       (''github'', JStr ''not analysed'')])\<rparr>)
     ''cv.exe'' (Some ''octocat'') None None None =
     (Inr (JSONResponse (JObj [(''error'', JStr ''Unsupported file type''),
                               (''github'', JStr ''not analysed'')]) 400),
      [Resume ''cv.exe''])
   \<and> reply_has_key
        (JSONResponse (JObj [(''error'', JStr ''Unsupported file type''),
                             (''github'', JStr ''not analysed'')]) 400) ''github''
   \<and> analyze_all
       (sample_helpers\<lparr>process_resume_file := \<lambda>f. Inl ''cannot read the upload''\<rparr>)
       ''cv.pdf'' (Some ''octocat'') None None None =
       (Inl ''cannot read the upload'', [Resume ''cv.pdf''])"
  by (simp add: analyze_all_def sample_helpers_def resume_error_def dict_get_def has_key_def)

section \<open>One key for each requested source\<close>

text \<open>
  C5. When the resume helper returns and its result is no error object, \<open>analyze_all\<close>
  returns the \<open>results\<close> dictionary, and for each of github, leetcode and codechef: without
  an identifier (none given, or the empty string) neither the source's key nor its error key
  is there; with one, exactly one of the two is. Every source that has an identifier is
  attempted, whatever the other helpers return or raise.
\<close>

theorem one_key_per_requested_source:
  assumes "process_resume_file H file = Inr resume_result"
    and "\<not> resume_error resume_result"
  shows "\<exists>results calls.
     analyze_all H file github leetcode codechef token = (Inr (Results results), calls)
     \<and> (\<not> truthy_str github \<longrightarrow>
           \<not> has_key results ''github'' \<and> \<not> has_key results ''github_error'')
     \<and> (truthy_str github \<longrightarrow>
           has_key results ''github'' \<noteq> has_key results ''github_error'')
     \<and> (\<not> truthy_str leetcode \<longrightarrow>
           \<not> has_key results ''leetcode'' \<and> \<not> has_key results ''leetcode_error'')
     \<and> (truthy_str leetcode \<longrightarrow>
           has_key results ''leetcode'' \<noteq> has_key results ''leetcode_error'')
     \<and> (\<not> truthy_str codechef \<longrightarrow>
           \<not> has_key results ''codechef'' \<and> \<not> has_key results ''codechef_error'')
     \<and> (truthy_str codechef \<longrightarrow>
           has_key results ''codechef'' \<noteq> has_key results ''codechef_error'')
     \<and> (\<forall>g. github = Some g \<and> g \<noteq> [] \<longrightarrow> Extract_username g \<in> set calls)
     \<and> (\<forall>l. leetcode = Some l \<and> l \<noteq> [] \<longrightarrow> Leetcode l \<in> set calls)
     \<and> (\<forall>c. codechef = Some c \<and> c \<noteq> [] \<longrightarrow> Codechef c \<in> set calls)"
proof -
  let ?D0 = "[(''resume'', resume_result)]"
  obtain kg vg where g: "fst (github_block H github token ?D0) =
      (if truthy_str github then dict_set ?D0 kg vg else ?D0)"
    and kg: "kg = ''github'' \<or> kg = ''github_error''"
    using github_block_sets by blast
  let ?D1 = "fst (github_block H github token ?D0)"
  obtain kl vl where l: "fst (leetcode_block H leetcode ?D1) =
      (if truthy_str leetcode then dict_set ?D1 kl vl else ?D1)"
    and kl: "kl = ''leetcode'' \<or> kl = ''leetcode_error''"
    using leetcode_block_sets by blast
  let ?D2 = "fst (leetcode_block H leetcode ?D1)"
  obtain kc vc where c: "fst (codechef_block H codechef ?D2) =
      (if truthy_str codechef then dict_set ?D2 kc vc else ?D2)"
    and kc: "kc = ''codechef'' \<or> kc = ''codechef_error''"
    using codechef_block_sets by blast
  let ?D3 = "fst (codechef_block H codechef ?D2)"
  have base: "has_key ?D0 k \<longleftrightarrow> k = ''resume''" for k
    by (auto simp: has_key_def)
  have keys: "has_key ?D3 k \<longleftrightarrow>
      (truthy_str codechef \<and> k = kc) \<or> (truthy_str leetcode \<and> k = kl)
      \<or> (truthy_str github \<and> k = kg) \<or> k = ''resume''" for k
  proof -
    have "has_key ?D3 k \<longleftrightarrow> (truthy_str codechef \<and> k = kc) \<or> has_key ?D2 k"
      by (subst c) (rule has_key_if_dict_set)
    moreover have "has_key ?D2 k \<longleftrightarrow> (truthy_str leetcode \<and> k = kl) \<or> has_key ?D1 k"
      by (subst l) (rule has_key_if_dict_set)
    moreover have "has_key ?D1 k \<longleftrightarrow> (truthy_str github \<and> k = kg) \<or> has_key ?D0 k"
      by (subst g) (rule has_key_if_dict_set)
    ultimately show ?thesis using base [of k] by blast
  qed
  have gh: "(\<not> truthy_str github \<longrightarrow>
           \<not> has_key ?D3 ''github'' \<and> \<not> has_key ?D3 ''github_error'')
     \<and> (truthy_str github \<longrightarrow> has_key ?D3 ''github'' \<noteq> has_key ?D3 ''github_error'')"
    using kg kl kc by (auto simp: keys)
  have lc: "(\<not> truthy_str leetcode \<longrightarrow>
           \<not> has_key ?D3 ''leetcode'' \<and> \<not> has_key ?D3 ''leetcode_error'')
     \<and> (truthy_str leetcode \<longrightarrow> has_key ?D3 ''leetcode'' \<noteq> has_key ?D3 ''leetcode_error'')"
    using kg kl kc by (auto simp: keys)
  have cc: "(\<not> truthy_str codechef \<longrightarrow>
           \<not> has_key ?D3 ''codechef'' \<and> \<not> has_key ?D3 ''codechef_error'')
     \<and> (truthy_str codechef \<longrightarrow> has_key ?D3 ''codechef'' \<noteq> has_key ?D3 ''codechef_error'')"
    using kg kl kc by (auto simp: keys)
  let ?calls = "Resume file
        # snd (github_block H github token ?D0)
        @ snd (leetcode_block H leetcode ?D1)
        @ snd (codechef_block H codechef ?D2)"
  have cg: "\<forall>g. github = Some g \<and> g \<noteq> [] \<longrightarrow> Extract_username g \<in> set ?calls"
  proof (intro allI impI)
    fix g assume "github = Some g \<and> g \<noteq> []"
    then obtain rest where "snd (github_block H github token ?D0) = Extract_username g # rest"
      using github_block_calls by blast
    then show "Extract_username g \<in> set ?calls" by simp
  qed
  have cl: "\<forall>l. leetcode = Some l \<and> l \<noteq> [] \<longrightarrow> Leetcode l \<in> set ?calls"
    by (simp add: leetcode_block_calls)
  have ccalls: "\<forall>c. codechef = Some c \<and> c \<noteq> [] \<longrightarrow> Codechef c \<in> set ?calls"
    by (simp add: codechef_block_calls)
  have "analyze_all H file github leetcode codechef token = (Inr (Results ?D3), ?calls)"
    using assms by (rule analyze_all_unfold)
  with gh lc cc cg cl ccalls show ?thesis by blast
qed

theorem one_key_per_requested_source_witness:
  "\<exists>results calls.
     analyze_all sample_helpers ''cv.pdf'' (Some ''octocat'') (Some ''lc_user'') None None =
       (Inr (Results results), calls)
     \<and> has_key results ''github'' \<noteq> has_key results ''github_error''
     \<and> has_key results ''leetcode'' \<noteq> has_key results ''leetcode_error''
     \<and> \<not> has_key results ''codechef'' \<and> \<not> has_key results ''codechef_error''
     \<and> Extract_username ''octocat'' \<in> set calls
     \<and> Leetcode ''lc_user'' \<in> set calls"
  using one_key_per_requested_source
    [of sample_helpers "''cv.pdf''" "JObj [(''skills'', JList [JStr ''python''])]"
      "Some ''octocat''" "Some ''lc_user''" None None]
  by (simp add: sample_helpers_def resume_error_def dict_get_def truthy_str_def)

section \<open>GitHub: both sub-calls or an error\<close>

text \<open>
  C6. With a GitHub identifier, a parsed username and a token: when the repository sub-call
  succeeds and the pull-request sub-call fails with message \<open>m\<close>, the results have
  \<open>github_error\<close> with value \<open>m\<close> and no \<open>github\<close> key, and they are the same whatever
  the repository sub-call returned; when the repository sub-call fails with message \<open>m\<close>,
  the results have \<open>github_error\<close> with value \<open>m\<close> and no \<open>github\<close> key, and the
  pull-request sub-call is not made.
\<close>

theorem github_is_all_or_nothing:
  assumes "process_resume_file H file = Inr resume_result"
    and "\<not> resume_error resume_result"
    and "github = Some g" and "g \<noteq> []"
    and "extract_username_from_input H g = Inr (Some username)" and "username \<noteq> []"
    and "(if truthy_str token then token else GITHUB_TOKEN_ENV H) = Some token_to_use"
    and "token_to_use \<noteq> []"
  shows "(failure_message ''error_graphql'' (get_github_repo_counts H username token_to_use) = None
          \<and> failure_message ''error_pr_api'' (get_pr_metrics H username token_to_use) = Some m
          \<longrightarrow>
          (\<exists>results calls.
             analyze_all H file github leetcode codechef token = (Inr (Results results), calls)
             \<and> map_of results ''github_error'' = Some m
             \<and> \<not> has_key results ''github''
             \<and> (\<forall>gql'. \<not> has_key gql' ''error_graphql'' \<longrightarrow>
                   fst (analyze_all (H\<lparr>get_github_repo_counts := \<lambda>u t. Inr gql'\<rparr>)
                          file github leetcode codechef token) = Inr (Results results))))
    \<and> (failure_message ''error_graphql'' (get_github_repo_counts H username token_to_use) = Some m
          \<longrightarrow>
          (\<exists>results calls.
             analyze_all H file github leetcode codechef token = (Inr (Results results), calls)
             \<and> map_of results ''github_error'' = Some m
             \<and> \<not> has_key results ''github''
             \<and> (\<forall>u t. Pr_metrics u t \<notin> set calls)))"
proof (intro conjI impI)
  let ?D0 = "[(''resume'', resume_result)]"
  let ?D1 = "dict_set ?D0 ''github_error'' m"
  let ?D3 = "fst (codechef_block H codechef (fst (leetcode_block H leetcode ?D1)))"
  assume a: "failure_message ''error_graphql'' (get_github_repo_counts H username token_to_use) = None
          \<and> failure_message ''error_pr_api'' (get_pr_metrics H username token_to_use) = Some m"
  then have gm: "github_metrics H username token_to_use ?D0 =
      (?D1, [Repo_counts username token_to_use, Pr_metrics username token_to_use])"
    using github_metrics_second_fails by blast
  have gb: "github_block H github token ?D0 =
      (?D1, [Extract_username g, Repo_counts username token_to_use,
             Pr_metrics username token_to_use])"
    using github_block_metrics [OF assms(3-8), of ?D0] gm by simp
  from analyze_all_github_error [OF assms(1,2) gb]
  have run: "fst (analyze_all H file github leetcode codechef token) = Inr (Results ?D3)"
    by simp
  have indep: "fst (analyze_all (H\<lparr>get_github_repo_counts := \<lambda>u t. Inr gql'\<rparr>)
                          file github leetcode codechef token) = Inr (Results ?D3)"
    if "\<not> has_key gql' ''error_graphql''" for gql'
  proof -
    let ?H = "H\<lparr>get_github_repo_counts := \<lambda>u t. Inr gql'\<rparr>"
    have r: "process_resume_file ?H file = Inr resume_result" using assms(1) by simp
    have e: "extract_username_from_input ?H g = Inr (Some username)" using assms(5) by simp
    have t: "(if truthy_str token then token else GITHUB_TOKEN_ENV ?H) = Some token_to_use"
      using assms(7) by (simp split: if_splits)
    have f1: "failure_message ''error_graphql'' (get_github_repo_counts ?H username token_to_use)
        = None" using that by (simp add: failure_message_def)
    have f2: "failure_message ''error_pr_api'' (get_pr_metrics ?H username token_to_use) = Some m"
      using a by simp
    have gm': "github_metrics ?H username token_to_use ?D0 =
      (?D1, [Repo_counts username token_to_use, Pr_metrics username token_to_use])"
      using f1 f2 by (rule github_metrics_second_fails)
    have gb': "github_block ?H github token ?D0 =
      (?D1, [Extract_username g, Repo_counts username token_to_use,
             Pr_metrics username token_to_use])"
      using github_block_metrics [OF assms(3,4) e assms(6) t assms(8), of ?D0] gm' by simp
    from analyze_all_github_error [OF r assms(2) gb']
    show ?thesis
      by (simp add: leetcode_block_other_helpers codechef_block_other_helpers)
  qed
  obtain calls where "analyze_all H file github leetcode codechef token = (Inr (Results ?D3), calls)"
    using run by (cases "analyze_all H file github leetcode codechef token") auto
  with github_error_recorded [of H codechef leetcode resume_result m] indep
  show "\<exists>results calls.
             analyze_all H file github leetcode codechef token = (Inr (Results results), calls)
             \<and> map_of results ''github_error'' = Some m
             \<and> \<not> has_key results ''github''
             \<and> (\<forall>gql'. \<not> has_key gql' ''error_graphql'' \<longrightarrow>
                   fst (analyze_all (H\<lparr>get_github_repo_counts := \<lambda>u t. Inr gql'\<rparr>)
                          file github leetcode codechef token) = Inr (Results results))"
    by blast
next
  let ?D0 = "[(''resume'', resume_result)]"
  let ?D1 = "dict_set ?D0 ''github_error'' m"
  let ?D2 = "fst (leetcode_block H leetcode ?D1)"
  let ?D3 = "fst (codechef_block H codechef ?D2)"
  assume "failure_message ''error_graphql'' (get_github_repo_counts H username token_to_use) = Some m"
  then have gm: "github_metrics H username token_to_use ?D0 =
      (?D1, [Repo_counts username token_to_use])"
    by (rule github_metrics_first_fails)
  have gb: "github_block H github token ?D0 =
      (?D1, [Extract_username g, Repo_counts username token_to_use])"
    using github_block_metrics [OF assms(3-8), of ?D0] gm by simp
  let ?calls = "Resume file # [Extract_username g, Repo_counts username token_to_use]
        @ snd (leetcode_block H leetcode ?D1) @ snd (codechef_block H codechef ?D2)"
  have run: "analyze_all H file github leetcode codechef token = (Inr (Results ?D3), ?calls)"
    using analyze_all_github_error [OF assms(1,2) gb] by simp
  have "\<forall>u t. Pr_metrics u t \<notin> set ?calls"
    by (simp add: leetcode_block_calls_no_pr codechef_block_calls_no_pr)
  with run github_error_recorded [of H codechef leetcode resume_result m]
  show "\<exists>results calls.
             analyze_all H file github leetcode codechef token = (Inr (Results results), calls)
             \<and> map_of results ''github_error'' = Some m
             \<and> \<not> has_key results ''github''
             \<and> (\<forall>u t. Pr_metrics u t \<notin> set calls)"
    by blast
qed

theorem github_is_all_or_nothing_witness:
  "(\<exists>results calls.
      analyze_all sample_helpers ''cv.pdf'' (Some ''octocat'') None None None =
        (Inr (Results results), calls)
      \<and> map_of results ''github_error'' = Some (JStr ''rate limited'')
      \<and> \<not> has_key results ''github'')
   \<and> (\<exists>results calls.
      analyze_all (sample_helpers\<lparr>get_github_repo_counts := \<lambda>u t. Inl ''Bad credentials''\<rparr>)
          ''cv.pdf'' (Some ''octocat'') None None None =
        (Inr (Results results), calls)
      \<and> map_of results ''github_error'' = Some (JStr ''Bad credentials'')
      \<and> \<not> has_key results ''github''
      \<and> Pr_metrics ''octocat'' ''ghp_env'' \<notin> set calls)"
proof -
  have first: "\<exists>results calls.
      analyze_all sample_helpers ''cv.pdf'' (Some ''octocat'') None None None =
        (Inr (Results results), calls)
      \<and> map_of results ''github_error'' = Some (JStr ''rate limited'')
      \<and> \<not> has_key results ''github''"
    using github_is_all_or_nothing
      [of sample_helpers "''cv.pdf''" "JObj [(''skills'', JList [JStr ''python''])]"
        "Some ''octocat''" "''octocat''" "''octocat''" None "''ghp_env''"
        "JStr ''rate limited''" None None]
    by (simp add: sample_helpers_def resume_error_def dict_get_def truthy_str_def
        failure_message_def has_key_def) blast
  have second: "\<exists>results calls.
      analyze_all (sample_helpers\<lparr>get_github_repo_counts := \<lambda>u t. Inl ''Bad credentials''\<rparr>)
          ''cv.pdf'' (Some ''octocat'') None None None =
        (Inr (Results results), calls)
      \<and> map_of results ''github_error'' = Some (JStr ''Bad credentials'')
      \<and> \<not> has_key results ''github''
      \<and> Pr_metrics ''octocat'' ''ghp_env'' \<notin> set calls"
    using github_is_all_or_nothing
      [of "sample_helpers\<lparr>get_github_repo_counts := \<lambda>u t. Inl ''Bad credentials''\<rparr>"
        "''cv.pdf''" "JObj [(''skills'', JList [JStr ''python''])]"
        "Some ''octocat''" "''octocat''" "''octocat''" None "''ghp_env''"
        "JStr ''Bad credentials''" None None]
    by (simp add: sample_helpers_def resume_error_def dict_get_def truthy_str_def
        failure_message_def has_key_def) blast
  from first second show ?thesis by (rule conjI)
qed

section \<open>The winning prediction\<close>

text \<open>
  C7. When the remote call returns a non-empty list of label/score records (the label a
  string, the score a \<open>float\<close> or an \<open>int\<close> that is a \<open>float\<close> exactly), the controller
  answers with the label and the score of the record \<open>first_max\<close> selects: every record
  before it in the list has a strictly smaller score and every record after it a score that
  is not greater. The client returns that list when the first response is HTTP 2xx and its
  body is the list itself or a list whose first item is the list.
\<close>

theorem top_prediction_is_first_maximum:
  assumes "strip inputs \<noteq> []"
    and "map label_score ps = map Some (r # rs)"
  shows "(fst (call_hf_api key remote (query_text inputs) 2) = Inr ps \<longrightarrow>
           fst (predict_role key remote inputs) =
             Inr \<lparr>predicted_label = fst (first_max r rs),
                  recommended_roles = fresher_roles (map_label_to_roles (fst (first_max r rs))),
                  confidence = snd (first_max r rs)\<rparr>)
    \<and> (\<exists>pre post. r # rs = pre @ first_max r rs # post
          \<and> (\<forall>y \<in> set pre. snd y < snd (first_max r rs))
          \<and> (\<forall>y \<in> set post. snd y \<le> snd (first_max r rs)))
    \<and> (remote 0 (first_request key (query_text inputs)) = Responds res
        \<and> 200 \<le> status_code res \<and> status_code res < 300
        \<and> body_json res = Inr data
        \<and> (data = JList ps \<or> (\<exists>rest. data = JList (JList ps # rest))) \<longrightarrow>
          call_hf_api key remote (query_text inputs) 2 =
            (Inr ps, [[Post (first_request key (query_text inputs))]]))"
proof (intro conjI impI)
  assume "fst (call_hf_api key remote (query_text inputs) 2) = Inr ps"
  then have "fst (predict_role key remote inputs) = build_response ps (query_text inputs)"
    by (simp add: predict_role_unfold [OF assms(1)])
  with build_response_records [OF assms(2)]
  show "fst (predict_role key remote inputs) =
             Inr \<lparr>predicted_label = fst (first_max r rs),
                  recommended_roles = fresher_roles (map_label_to_roles (fst (first_max r rs))),
                  confidence = snd (first_max r rs)\<rparr>"
    by simp
next
  show "\<exists>pre post. r # rs = pre @ first_max r rs # post
          \<and> (\<forall>y \<in> set pre. snd y < snd (first_max r rs))
          \<and> (\<forall>y \<in> set post. snd y \<le> snd (first_max r rs))"
    by (rule first_max_split)
next
  let ?t = "query_text inputs"
  assume a: "remote 0 (first_request key ?t) = Responds res
        \<and> 200 \<le> status_code res \<and> status_code res < 300
        \<and> body_json res = Inr data
        \<and> (data = JList ps \<or> (\<exists>rest. data = JList (JList ps # rest)))"
  then have "unwrap_predictions data = Some ps"
    using unwrap_records [OF assms(2)] by blast
  with a have "hf_attempt key remote ?t 0 = (Inr ps, [Post (first_request key ?t)])"
    using hf_attempt_2xx [of remote 0 key ?t res data ps] by blast
  then show "call_hf_api key remote ?t 2 = (Inr ps, [[Post (first_request key ?t)]])"
    by (rule call_hf_api_first_attempt)
qed

theorem top_prediction_is_first_maximum_witness:
  "predict_role None
     (\<lambda>n req. Responds \<lparr>status_code = 200, body_text = ''[[]]'',
        body_json = Inr (JList [JList
          [JObj [(''label'', JStr ''organization''), (''score'', JFloat 0.9)],
           JObj [(''label'', JStr ''technology''), (''score'', JFloat 0.1)]]])\<rparr>)
     ''team lead, planning'' =
     (Inr \<lparr>predicted_label = ''organization'',
          recommended_roles = [''Business Analyst - Fresher''],
          confidence = 0.9\<rparr>,
      [[Post (hf_request base_headers ''team lead, planning'')]])"
proof -
  let ?ps = "[JObj [(''label'', JStr ''organization''), (''score'', JFloat 0.9)],
        JObj [(''label'', JStr ''technology''), (''score'', JFloat 0.1)]]"
  let ?res = "\<lparr>status_code = 200, body_text = ''[[]]'', body_json = Inr (JList [JList ?ps])\<rparr>"
  have s: "strip ''team lead, planning'' \<noteq> []" by (simp add: strip_def is_space_def)
  have q: "query_text ''team lead, planning'' = ''team lead, planning''"
    by (simp add: query_text_def strip_def is_space_def)
  have f: "first_request None ''team lead, planning'' = hf_request base_headers ''team lead, planning''"
    by (simp add: first_request_def truthy_str_def)
  from top_prediction_is_first_maximum
    [of "''team lead, planning''" ?ps "(''organization'', 0.9)" "[(''technology'', 0.1)]"
       None "\<lambda>n req. Responds ?res" ?res "JList [JList ?ps]"] s
  have call: "call_hf_api None (\<lambda>n req. Responds ?res) ''team lead, planning'' 2 =
      (Inr ?ps, [[Post (hf_request base_headers ''team lead, planning'')]])"
    and res: "fst (call_hf_api None (\<lambda>n req. Responds ?res) ''team lead, planning'' 2) = Inr ?ps
      \<longrightarrow> fst (predict_role None (\<lambda>n req. Responds ?res) ''team lead, planning'') =
          Inr \<lparr>predicted_label = ''organization'',
               recommended_roles = [''Business Analyst - Fresher''],
               confidence = 0.9\<rparr>"
    by (simp_all add: q f fresher_roles_def map_label_to_roles_def dict_get_def ROLE_MAP_def
        lower_def lower_char_def strip_def is_space_def)
  from call res have "fst (predict_role None (\<lambda>n req. Responds ?res) ''team lead, planning'') =
          Inr \<lparr>predicted_label = ''organization'',
               recommended_roles = [''Business Analyst - Fresher''],
               confidence = 0.9\<rparr>" by simp
  moreover have "snd (predict_role None (\<lambda>n req. Responds ?res) ''team lead, planning'') =
      [[Post (hf_request base_headers ''team lead, planning'')]]"
    using call by (simp add: predict_role_unfold [OF s] q)
  ultimately show ?thesis by (simp add: prod_eq_iff)
qed

section \<open>The keyword heuristic\<close>

text \<open>
  C8. The heuristic's label is the label of the first keyword group, in the order frontend,
  backend, design, analytics, ML, business, security, of which a keyword occurs in the
  lowercased text, and \<open>technology\<close> when there is none; it depends on the lowercased text
  only, and the score that goes with it is 0.5. A text containing \<open>react\<close> gets
  \<open>technology\<close>, whose list of roles is not empty; so does \<open>predict_role\<close> when the
  remote call fails and the text it examines (stripped, cut at 2000 characters) contains
  \<open>react\<close>.
\<close>

theorem heuristic_first_matching_group:
  "heuristic_label text =
     (case find (\<lambda>(kws, label). any_in kws (lower text)) keyword_groups of
        Some (kws, label) \<Rightarrow> label
      | None \<Rightarrow> ''technology'')
   \<and> (lower text = lower text' \<longrightarrow> heuristic_label text = heuristic_label text')
   \<and> label_and_score [] text = Inr (heuristic_label text, 0.5)
   \<and> (contains ''react'' text \<longrightarrow>
         heuristic_label text = ''technology''
         \<and> fresher_roles (map_label_to_roles (heuristic_label text)) \<noteq> [])
   \<and> (strip inputs \<noteq> [] \<and> contains ''react'' (query_text inputs)
        \<and> fst (call_hf_api key remote (query_text inputs) 2) = Inl e \<longrightarrow>
         fst (predict_role key remote inputs) =
           Inr \<lparr>predicted_label = ''technology'',
                recommended_roles =
                  [''Software Engineer - Fresher'', ''Full Stack Developer - Fresher''],
                confidence = 0.5\<rparr>)"
proof (intro conjI impI)
  show "heuristic_label text =
     (case find (\<lambda>(kws, label). any_in kws (lower text)) keyword_groups of
        Some (kws, label) \<Rightarrow> label
      | None \<Rightarrow> ''technology'')"
    by (rule heuristic_label_find)
next
  assume "lower text = lower text'"
  then show "heuristic_label text = heuristic_label text'"
    by (simp add: heuristic_label_def)
next
  show "label_and_score [] text = Inr (heuristic_label text, 0.5)"
    by (simp add: label_and_score_def)
next
  assume "contains ''react'' text"
  then show "heuristic_label text = ''technology''" by (rule heuristic_label_react)
next
  assume "contains ''react'' text"
  then have "heuristic_label text = ''technology''" by (rule heuristic_label_react)
  then show "fresher_roles (map_label_to_roles (heuristic_label text)) \<noteq> []"
    by (simp add: technology_roles)
next
  assume a: "strip inputs \<noteq> [] \<and> contains ''react'' (query_text inputs)
        \<and> fst (call_hf_api key remote (query_text inputs) 2) = Inl e"
  then have "heuristic_label (query_text inputs) = ''technology''"
    using heuristic_label_react by blast
  moreover from a have "fst (predict_role key remote inputs) =
      Inr (heuristic_response (query_text inputs))"
    using predict_role_call_fails by blast
  ultimately show "fst (predict_role key remote inputs) =
           Inr \<lparr>predicted_label = ''technology'',
                recommended_roles =
                  [''Software Engineer - Fresher'', ''Full Stack Developer - Fresher''],
                confidence = 0.5\<rparr>"
    by (simp add: heuristic_response_def technology_roles)
qed

theorem heuristic_first_matching_group_witness:
  "heuristic_label ''Built a React dashboard with a Python API'' = ''technology''
   \<and> heuristic_label ''PYTHON scripts, sql'' = ''programming''
   \<and> heuristic_label ''gardening'' = ''technology''
   \<and> fst (predict_role None (\<lambda>n req. Post_raises ''timed out'') ''  react and redux '') =
       Inr \<lparr>predicted_label = ''technology'',
            recommended_roles =
              [''Software Engineer - Fresher'', ''Full Stack Developer - Fresher''],
            confidence = 0.5\<rparr>"
proof -
  have fails: "fst (call_hf_api None (\<lambda>n req. Post_raises ''timed out'') ''react and redux'' 2)
      = Inl (HTTPException 500 (Detail ''timed out''))"
    by (simp add: call_hf_api_def numeral_3_eq_3 hf_attempt_def)
  have q: "query_text ''  react and redux '' = ''react and redux''"
    by (simp add: query_text_def strip_def is_space_def)
  have s: "strip ''  react and redux '' \<noteq> []"
    by (simp add: strip_def is_space_def)
  have c: "contains ''react'' ''react and redux''" by simp
  show ?thesis
    using heuristic_first_matching_group
        [of "''Built a React dashboard with a Python API''"
          "''built a react dashboard with a python api''"
          "''  react and redux ''" None "\<lambda>n req. Post_raises ''timed out''"
          "HTTPException 500 (Detail ''timed out'')"]
      heuristic_first_matching_group
        [of "''PYTHON scripts, sql''" "''python scripts, sql''" "''  react and redux ''" None
          "\<lambda>n req. Post_raises ''timed out''" "HTTPException 500 (Detail ''timed out'')"]
      heuristic_first_matching_group
        [of "''gardening''" "''gardening''" "''  react and redux ''" None
          "\<lambda>n req. Post_raises ''timed out''" "HTTPException 500 (Detail ''timed out'')"]
      fails q s c
    by (simp add: keyword_groups_def any_in_def lower_def lower_char_def)
qed

section \<open>The label-to-roles lookup\<close>

text \<open>
  C9. A label whose lowercased, stripped form is a key of the table gets exactly that
  key's role list, in the table's order; every other label gets the empty list. The
  function is total: there is no other outcome.
\<close>

theorem map_label_to_roles_table:
  "(\<forall>(k, roles) \<in> set ROLE_MAP.
       strip (lower label) = k \<longrightarrow> map_label_to_roles label = roles)
   \<and> (strip (lower label) \<notin> fst ` set ROLE_MAP \<longrightarrow> map_label_to_roles label = [])"
  by (simp add: map_label_to_roles_def dict_get_def ROLE_MAP_def)

theorem map_label_to_roles_table_witness:
  "map_label_to_roles ''  TECHNOLOGY '' =
     [''Software Engineer - Fresher'', ''Full Stack Developer - Fresher'']
   \<and> map_label_to_roles ''Learning'' = [''Machine Learning Intern'']
   \<and> map_label_to_roles ''joy'' = []"
  using map_label_to_roles_table [of "''  TECHNOLOGY ''"]
    map_label_to_roles_table [of "''Learning''"]
    map_label_to_roles_table [of "''joy''"]
  by (simp add: ROLE_MAP_def strip_def lower_def lower_char_def is_space_def)

section \<open>An empty list of predictions\<close>

text \<open>
  C10. A first response with HTTP 2xx and the empty list as body is a success of the client
  with no record, after one post. Whenever the client returns the empty list, the controller
  answers as it does when the remote call fails: the keyword heuristic's label, confidence
  0.5.
\<close>

theorem empty_list_falls_back:
  assumes "strip inputs \<noteq> []"
    and "remote 0 (first_request key (query_text inputs)) = Responds res"
    and "200 \<le> status_code res" and "status_code res < 300"
    and "body_json res = Inr (JList [])"
  shows "call_hf_api key remote (query_text inputs) 2 =
           (Inr [], [[Post (first_request key (query_text inputs))]])
    \<and> (\<forall>remote'. fst (call_hf_api key remote' (query_text inputs) 2) = Inr [] \<longrightarrow>
          fst (predict_role key remote' inputs) =
            Inr \<lparr>predicted_label = heuristic_label (query_text inputs),
                 recommended_roles =
                   fresher_roles (map_label_to_roles (heuristic_label (query_text inputs))),
                 confidence = 0.5\<rparr>)
    \<and> predict_role key remote inputs =
          (Inr \<lparr>predicted_label = heuristic_label (query_text inputs),
                recommended_roles =
                  fresher_roles (map_label_to_roles (heuristic_label (query_text inputs))),
                confidence = 0.5\<rparr>,
           [[Post (first_request key (query_text inputs))]])
    \<and> (\<forall>remote' e. fst (call_hf_api key remote' (query_text inputs) 2) = Inl e \<longrightarrow>
          fst (predict_role key remote' inputs) = fst (predict_role key remote inputs))"
proof -
  let ?t = "query_text inputs"
  have "hf_attempt key remote ?t 0 = (Inr [], [Post (first_request key ?t)])"
    using assms(2-5) unwrap_empty_list by (rule hf_attempt_2xx)
  then have call: "call_hf_api key remote ?t 2 = (Inr [], [[Post (first_request key ?t)]])"
    by (rule call_hf_api_first_attempt)
  then have pr: "predict_role key remote inputs =
      (Inr (heuristic_response ?t), [[Post (first_request key ?t)]])"
    by (simp add: predict_role_unfold [OF assms(1)] build_response_empty)
  have "fst (predict_role key remote' inputs) = fst (predict_role key remote inputs)"
    if "fst (call_hf_api key remote' ?t 2) = Inl e" for remote' e
    using predict_role_call_fails [OF assms(1) that] pr by simp
  moreover have "fst (predict_role key remote' inputs) = Inr (heuristic_response ?t)"
    if "fst (call_hf_api key remote' ?t 2) = Inr []" for remote'
    using predict_role_call_empty [OF assms(1) that] .
  ultimately show ?thesis using call pr by (simp add: heuristic_response_def)
qed

theorem empty_list_falls_back_witness:
  "predict_role (Some ''hf_key'')
     (\<lambda>n req. Responds \<lparr>status_code = 200, body_text = ''[]'', body_json = Inr (JList [])\<rparr>)
     ''SQL and Excel reports'' =
     (Inr \<lparr>predicted_label = ''analysis'',
           recommended_roles = [''Data Analyst - Fresher''],
           confidence = 0.5\<rparr>,
      [[Post (hf_request (base_headers @ [(''Authorization'', ''Bearer hf_key'')])
                ''SQL and Excel reports'')]])"
  using empty_list_falls_back
    [of "''SQL and Excel reports''"
      "\<lambda>n req. Responds \<lparr>status_code = 200, body_text = ''[]'', body_json = Inr (JList [])\<rparr>"
      "Some ''hf_key''"
      "\<lparr>status_code = 200, body_text = ''[]'', body_json = Inr (JList [])\<rparr>"]
  by (simp add: strip_def is_space_def query_text_def first_request_def truthy_str_def
      auth_headers_def heuristic_label_def any_in_def lower_def lower_char_def
      fresher_roles_def map_label_to_roles_def dict_get_def ROLE_MAP_def)

end
